theory Spec2Isabelle
  imports Main
begin

section \<open>Python values shared by the three scripts\<close>

text \<open>
  The repository holds three command-line scripts: \<^verbatim>\<open>create_git_info.py\<close>,
  \<^verbatim>\<open>upload_submission.py\<close> and \<^verbatim>\<open>validate_python.py\<close>. Each is embedded below as
  functions over an explicit world (files, standard output, requests sent) and an
  explicit environment (what the operating system, the network and the Python library
  answer). A \<^typ>\<open>string\<close> is a list of 8-bit characters, so a Python \<^verbatim>\<open>bytes\<close> value is a
  \<^typ>\<open>string\<close> as it is, and a Python \<^verbatim>\<open>str\<close> is the \<^typ>\<open>string\<close> of its UTF-8 bytes.
\<close>

subsection \<open>Strings\<close>

definition digit_char :: "nat \<Rightarrow> char" where
  "digit_char d = char_of (48 + d)"

fun show_nat :: "nat \<Rightarrow> string" where
  "show_nat n = (if n < 10 then [digit_char n] else show_nat (n div 10) @ [digit_char (n mod 10)])"

declare show_nat.simps [simp del]

definition show_int :: "int \<Rightarrow> string" where
  "show_int i = (if i < 0 then CHR ''-'' # show_nat (nat (- i)) else show_nat (nat i))"

text \<open>\<^verbatim>\<open>str.upper\<close>, \<^verbatim>\<open>str.lower\<close> and \<^verbatim>\<open>str.capitalize\<close> on the ASCII letters; the bytes of
  any other character are left as they are.\<close>

definition upper_char :: "char \<Rightarrow> char" where
  "upper_char c =
     (let n = (of_char c :: nat) in if 97 \<le> n \<and> n \<le> 122 then char_of (n - 32) else c)"

definition lower_char :: "char \<Rightarrow> char" where
  "lower_char c =
     (let n = (of_char c :: nat) in if 65 \<le> n \<and> n \<le> 90 then char_of (n + 32) else c)"

definition py_upper :: "string \<Rightarrow> string" where
  "py_upper s = map upper_char s"

definition py_capitalize :: "string \<Rightarrow> string" where
  "py_capitalize s = (case s of [] \<Rightarrow> [] | c # cs \<Rightarrow> upper_char c # map lower_char cs)"

text \<open>
  \<^verbatim>\<open>str.strip()\<close> removes the white space of Python at both ends: the characters for
  which \<^verbatim>\<open>str.isspace()\<close> holds. In UTF-8 these are the single bytes 9 to 13, 28 to 31 and
  the space; U+0085 and U+00A0 in two bytes; U+1680, U+2000 to U+200A, U+2028, U+2029,
  U+202F, U+205F and U+3000 in three bytes.
\<close>

definition is_space1 :: "char \<Rightarrow> bool" where
  "is_space1 c = (let n = (of_char c :: nat) in (9 \<le> n \<and> n \<le> 13) \<or> (28 \<le> n \<and> n \<le> 32))"

definition is_space2 :: "char \<Rightarrow> char \<Rightarrow> bool" where
  "is_space2 a b = (a = CHR 0xC2 \<and> (b = CHR 0x85 \<or> b = CHR 0xA0))"

definition is_space3 :: "char \<Rightarrow> char \<Rightarrow> char \<Rightarrow> bool" where
  "is_space3 a b c =
     ((a = CHR 0xE1 \<and> b = CHR 0x9A \<and> c = CHR 0x80)
      \<or> (a = CHR 0xE2 \<and> b = CHR 0x80
          \<and> ((128 \<le> (of_char c :: nat) \<and> (of_char c :: nat) \<le> 138)
              \<or> c = CHR 0xA8 \<or> c = CHR 0xA9 \<or> c = CHR 0xAF))
      \<or> (a = CHR 0xE2 \<and> b = CHR 0x81 \<and> c = CHR 0x9F)
      \<or> (a = CHR 0xE3 \<and> b = CHR 0x80 \<and> c = CHR 0x80))"

fun py_lstrip :: "string \<Rightarrow> string" where
  "py_lstrip (a # b # c # rest) =
     (if is_space1 a then py_lstrip (b # c # rest)
      else if is_space2 a b then py_lstrip (c # rest)
      else if is_space3 a b c then py_lstrip rest
      else a # b # c # rest)"
| "py_lstrip [a, b] =
     (if is_space1 a then py_lstrip [b] else if is_space2 a b then [] else [a, b])"
| "py_lstrip [a] = (if is_space1 a then [] else [a])"
| "py_lstrip [] = []"

text \<open>The same from the right end, on the reversed string: its last byte comes first.\<close>

fun rstrip_reversed :: "string \<Rightarrow> string" where
  "rstrip_reversed (c # b # a # rest) =
     (if is_space1 c then rstrip_reversed (b # a # rest)
      else if is_space2 b c then rstrip_reversed (a # rest)
      else if is_space3 a b c then rstrip_reversed rest
      else c # b # a # rest)"
| "rstrip_reversed [c, b] =
     (if is_space1 c then rstrip_reversed [b] else if is_space2 b c then [] else [c, b])"
| "rstrip_reversed [c] = (if is_space1 c then [] else [c])"
| "rstrip_reversed [] = []"

definition py_strip :: "string \<Rightarrow> string" where
  "py_strip s = rev (rstrip_reversed (rev (py_lstrip s)))"

definition py_rstrip :: "char \<Rightarrow> string \<Rightarrow> string" where
  "py_rstrip d s = rev (dropWhile (\<lambda>c. c = d) (rev s))"

text \<open>\<^verbatim>\<open>s.split(d)\<close> for a one-character separator: never empty.\<close>

fun py_split :: "char \<Rightarrow> string \<Rightarrow> string list" where
  "py_split d [] = [[]]"
| "py_split d (c # cs) =
     (if c = d then [] # py_split d cs
      else (case py_split d cs of [] \<Rightarrow> [[c]] | x # xs \<Rightarrow> (c # x) # xs))"

text \<open>\<^verbatim>\<open>needle in haystack\<close> on two strings.\<close>

fun is_prefix :: "string \<Rightarrow> string \<Rightarrow> bool" where
  "is_prefix [] ys = True"
| "is_prefix (x # xs) [] = False"
| "is_prefix (x # xs) (y # ys) = (x = y \<and> is_prefix xs ys)"

fun is_substring :: "string \<Rightarrow> string \<Rightarrow> bool" where
  "is_substring xs [] = (xs = [])"
| "is_substring xs (y # ys) = (is_prefix xs (y # ys) \<or> is_substring xs ys)"

text \<open>The non-ASCII symbols the scripts print, as their UTF-8 bytes.\<close>

definition sym_outbox :: string where "sym_outbox = [CHR 0xF0, CHR 0x9F, CHR 0x93, CHR 0xA4]"
definition sym_cross :: string where "sym_cross = [CHR 0xE2, CHR 0x9D, CHR 0x8C]"
definition sym_warning :: string where
  "sym_warning = [CHR 0xE2, CHR 0x9A, CHR 0xA0, CHR 0xEF, CHR 0xB8, CHR 0x8F]"
definition sym_rocket :: string where "sym_rocket = [CHR 0xF0, CHR 0x9F, CHR 0x9A, CHR 0x80]"
definition sym_check :: string where "sym_check = [CHR 0xE2, CHR 0x9C, CHR 0x85]"
definition sym_red :: string where "sym_red = [CHR 0xF0, CHR 0x9F, CHR 0x94, CHR 0xB4]"
definition sym_blue :: string where "sym_blue = [CHR 0xF0, CHR 0x9F, CHR 0x94, CHR 0xB5]"
definition sym_bulb :: string where "sym_bulb = [CHR 0xF0, CHR 0x9F, CHR 0x92, CHR 0xA1]"
definition sym_folder :: string where "sym_folder = [CHR 0xF0, CHR 0x9F, CHR 0x93, CHR 0x81]"
definition sym_memo :: string where "sym_memo = [CHR 0xF0, CHR 0x9F, CHR 0x93, CHR 0x9D]"

definition nl :: string where "nl = [CHR 0x0A]"

definition rule60 :: string where
  "rule60 = replicate 60 (CHR ''='')"

subsection \<open>Base64\<close>

text \<open>
  \<^verbatim>\<open>base64.b64encode\<close> and \<^verbatim>\<open>base64.b64decode\<close> of the Python library (RFC 4648, the
  standard alphabet, padding with \<^verbatim>\<open>=\<close>). Three bytes give four characters of six bits
  each; a last group of one or two bytes is padded. The decoder is the library's on
  well-padded input over the alphabet; on any other input it gives \<^term>\<open>None\<close>.
\<close>

definition b64_char :: "nat \<Rightarrow> char" where
  "b64_char i =
     (if i < 26 then char_of (65 + i)
      else if i < 52 then char_of (71 + i)
      else if i < 62 then char_of (i - 4)
      else if i = 62 then CHR ''+''
      else CHR ''/'')"

definition b64_index :: "char \<Rightarrow> nat option" where
  "b64_index c =
     (let n = (of_char c :: nat) in
      if 65 \<le> n \<and> n \<le> 90 then Some (n - 65)
      else if 97 \<le> n \<and> n \<le> 122 then Some (n - 71)
      else if 48 \<le> n \<and> n \<le> 57 then Some (n + 4)
      else if n = 43 then Some 62
      else if n = 47 then Some 63
      else None)"

definition byte_val :: "char \<Rightarrow> nat" where
  "byte_val c = of_char c"

fun b64encode :: "string \<Rightarrow> string" where
  "b64encode [] = []"
| "b64encode [a] =
     [b64_char (byte_val a div 4), b64_char (byte_val a mod 4 * 16), CHR ''='', CHR ''='']"
| "b64encode [a, b] =
     [b64_char (byte_val a div 4), b64_char (byte_val a mod 4 * 16 + byte_val b div 16),
      b64_char (byte_val b mod 16 * 4), CHR ''='']"
| "b64encode (a # b # c # rest) =
     [b64_char (byte_val a div 4), b64_char (byte_val a mod 4 * 16 + byte_val b div 16),
      b64_char (byte_val b mod 16 * 4 + byte_val c div 64), b64_char (byte_val c mod 64)]
     @ b64encode rest"

fun b64decode :: "string \<Rightarrow> string option" where
  "b64decode [] = Some []"
| "b64decode (c1 # c2 # c3 # c4 # rest) =
     (if c4 = CHR ''='' \<and> rest = [] then
        (if c3 = CHR ''='' then
           (case (b64_index c1, b64_index c2) of
              (Some x1, Some x2) \<Rightarrow> Some [char_of (x1 * 4 + x2 div 16)]
            | _ \<Rightarrow> None)
         else
           (case (b64_index c1, b64_index c2, b64_index c3) of
              (Some x1, Some x2, Some x3) \<Rightarrow>
                Some [char_of (x1 * 4 + x2 div 16), char_of (x2 mod 16 * 16 + x3 div 4)]
            | _ \<Rightarrow> None))
      else
        (case (b64_index c1, b64_index c2, b64_index c3, b64_index c4) of
           (Some x1, Some x2, Some x3, Some x4) \<Rightarrow>
             (case b64decode rest of
                None \<Rightarrow> None
              | Some bs \<Rightarrow>
                  Some (char_of (x1 * 4 + x2 div 16) # char_of (x2 mod 16 * 16 + x3 div 4)
                        # char_of (x3 mod 4 * 64 + x4) # bs))
         | _ \<Rightarrow> None))"
| "b64decode _ = None"

subsection \<open>JSON values and the Python library\<close>

text \<open>
  The values \<^verbatim>\<open>json.loads\<close> and \<^verbatim>\<open>response.json()\<close> give. A \<^verbatim>\<open>dict\<close> is the list of
  its items in order; Python keeps one item for each key, and \<^term>\<open>map_of\<close> reads the first.
  Floating-point numbers are left out.
\<close>

datatype json =
    JNull
  | JBool bool
  | JInt int
  | JStr string
  | JArr "json list"
  | JObj "(string \<times> json) list"

text \<open>
  The library functions the uploader calls and this theory does not define:
  \<^verbatim>\<open>json.loads\<close> (\<^term>\<open>Inl\<close> carries the text of the \<^verbatim>\<open>JSONDecodeError\<close>),
  \<^verbatim>\<open>json.dumps(v, indent=2)\<close>, and \<^verbatim>\<open>str\<close> of a list or a dict.
\<close>

record pylib =
  json_loads :: "string \<Rightarrow> string + json"
  json_dumps :: "json \<Rightarrow> string"
  py_repr :: "json \<Rightarrow> string"

definition type_name :: "json \<Rightarrow> string" where
  "type_name v =
     (case v of
        JNull \<Rightarrow> ''NoneType''
      | JBool _ \<Rightarrow> ''bool''
      | JInt _ \<Rightarrow> ''int''
      | JStr _ \<Rightarrow> ''str''
      | JArr _ \<Rightarrow> ''list''
      | JObj _ \<Rightarrow> ''dict'')"

text \<open>\<^verbatim>\<open>str(v)\<close>, which is also what \<^verbatim>\<open>{v}\<close> in an f-string gives.\<close>

definition py_str :: "pylib \<Rightarrow> json \<Rightarrow> string" where
  "py_str lib v =
     (case v of
        JNull \<Rightarrow> ''None''
      | JBool b \<Rightarrow> (if b then ''True'' else ''False'')
      | JInt i \<Rightarrow> show_int i
      | JStr s \<Rightarrow> s
      | _ \<Rightarrow> py_repr lib v)"

text \<open>Truth value of a string option: \<^verbatim>\<open>None\<close> and the empty string are false.\<close>

definition truthy :: "string option \<Rightarrow> bool" where
  "truthy x = (case x of None \<Rightarrow> False | Some s \<Rightarrow> s \<noteq> [])"

section \<open>The submission uploader (\<^verbatim>\<open>upload_submission.py\<close>)\<close>

subsection \<open>Exceptions, world and environment\<close>

record response =
  resp_text :: string

text \<open>
  \<^verbatim>\<open>SubmissionError(title, details)\<close> of the script; \<^verbatim>\<open>requests.exceptions.RequestException\<close>
  with \<^verbatim>\<open>str(e)\<close> and \<^verbatim>\<open>e.response\<close>; and any other \<^verbatim>\<open>Exception\<close>, with \<^verbatim>\<open>str(e)\<close>.
\<close>

datatype exc =
    SubmissionError json "string option"
  | RequestException string "response option"
  | OtherException string

definition exc_str :: "pylib \<Rightarrow> exc \<Rightarrow> string" where
  "exc_str lib e =
     (case e of
        SubmissionError title details \<Rightarrow> py_str lib title
      | RequestException m r \<Rightarrow> m
      | OtherException m \<Rightarrow> m)"

text \<open>The JSON body of the request: the keys \<^verbatim>\<open>api_key\<close>, \<^verbatim>\<open>role\<close>, \<^verbatim>\<open>file\<close> and
  \<^verbatim>\<open>filename\<close>.\<close>

record payload =
  pl_api_key :: string
  pl_role :: string
  pl_file :: string
  pl_filename :: string

datatype event =
    Print string
  | Post string payload
  | Write string string
  | Append string string

text \<open>
  The world a run changes: the content of each file that exists, and the ordered list
  of what the run did (text printed, requests sent, files written or appended to).
  The archive is read as bytes, and files are written, appended to and printed to
  without failure; what reading a file as text gives is for the environment to say.
\<close>

record world =
  files :: "string \<rightharpoonup> string"
  events :: "event list"

text \<open>
  The environment a run reads: the library, the environment variables, what the
  one HTTP exchange of lines 60 to 68 (\<^verbatim>\<open>requests.post\<close>, \<^verbatim>\<open>raise_for_status\<close>,
  \<^verbatim>\<open>response.json()\<close>) gives for an endpoint and a payload (the decoded body, or the
  exception raised), and what \<^verbatim>\<open>Path(p).read_text()\<close> gives for a path and the bytes it
  holds: the text, decoded in the encoding of the platform and with every line ending
  read as a line feed, or the text of the exception raised (\<^verbatim>\<open>UnicodeDecodeError\<close> for
  bytes that do not decode, \<^verbatim>\<open>IsADirectoryError\<close> for a directory, and so on).
\<close>

record upenv =
  lib :: pylib
  getenv :: "string \<rightharpoonup> string"
  http_post :: "string \<Rightarrow> payload \<Rightarrow> exc + json"
  read_text :: "string \<Rightarrow> string \<Rightarrow> string + string"

record args =
  arg_api_key :: string
  arg_endpoint :: string
  arg_role :: string
  arg_file :: string
  arg_file_list :: "string option"
  arg_submission_path :: "string option"
  arg_print_info :: bool

type_synonym 'a io = "world \<Rightarrow> (exc + 'a) \<times> world"

definition print :: "string \<Rightarrow> world \<Rightarrow> world" where
  "print s w = w\<lparr>events := events w @ [Print (s @ nl)]\<rparr>"

definition write_file :: "string \<Rightarrow> string \<Rightarrow> world \<Rightarrow> world" where
  "write_file p s w = w\<lparr>files := (files w)(p \<mapsto> s), events := events w @ [Write p s]\<rparr>"

definition old_content :: "world \<Rightarrow> string \<Rightarrow> string" where
  "old_content w p = (case files w p of None \<Rightarrow> [] | Some t \<Rightarrow> t)"

definition append_file :: "string \<Rightarrow> string \<Rightarrow> world \<Rightarrow> world" where
  "append_file p s w =
     w\<lparr>files := (files w)(p \<mapsto> old_content w p @ s), events := events w @ [Append p s]\<rparr>"

text \<open>\<^verbatim>\<open>Path.exists()\<close>, \<^verbatim>\<open>Path.name\<close> and \<^verbatim>\<open>Path.suffix\<close>, on a path written without a
  trailing separator.\<close>

definition path_exists :: "world \<Rightarrow> string \<Rightarrow> bool" where
  "path_exists w p = (files w p \<noteq> None)"

definition path_name :: "string \<Rightarrow> string" where
  "path_name p = last (py_split (CHR ''/'') p)"

definition path_suffix :: "string \<Rightarrow> string" where
  "path_suffix p =
     (let name = path_name p;
          tail = rev (takeWhile (\<lambda>c. c \<noteq> CHR ''.'') (rev name))
      in if CHR ''.'' \<notin> set name then []
         else (let i = length name - length tail - 1
               in if 0 < i \<and> i < length name - 1 then drop i name else []))"

subsection \<open>Statements that may raise\<close>

text \<open>
  A block of statements runs in order and stops at the first exception, keeping what the
  earlier statements did. An f-string evaluates its parts from left to right.
\<close>

fun run_steps :: "(unit io) list \<Rightarrow> unit io" where
  "run_steps [] w = (Inr (), w)"
| "run_steps (s # ss) w =
     (case s w of
        (Inl e, w') \<Rightarrow> (Inl e, w')
      | (Inr u, w') \<Rightarrow> run_steps ss w')"

fun fstring :: "(exc + string) list \<Rightarrow> exc + string" where
  "fstring [] = Inr []"
| "fstring (p # ps) =
     (case p of
        Inl e \<Rightarrow> Inl e
      | Inr s \<Rightarrow> (case fstring ps of Inl e \<Rightarrow> Inl e | Inr t \<Rightarrow> Inr (s @ t)))"

definition lit :: "string \<Rightarrow> exc + string" where
  "lit s = Inr s"

definition fmt :: "pylib \<Rightarrow> exc + json \<Rightarrow> exc + string" where
  "fmt l x = (case x of Inl e \<Rightarrow> Inl e | Inr v \<Rightarrow> Inr (py_str l v))"

definition print_stmt :: "(exc + string) \<Rightarrow> unit io" where
  "print_stmt s w = (case s of Inl e \<Rightarrow> (Inl e, w) | Inr t \<Rightarrow> (Inr (), print t w))"

definition write_stmt :: "string \<Rightarrow> (exc + string) \<Rightarrow> unit io" where
  "write_stmt p s w = (case s of Inl e \<Rightarrow> (Inl e, w) | Inr t \<Rightarrow> (Inr (), append_file p t w))"

definition quoted :: "string \<Rightarrow> string" where
  "quoted s = [CHR 0x27] @ s @ [CHR 0x27]"

definition attribute_error :: "json \<Rightarrow> string \<Rightarrow> exc" where
  "attribute_error v attr =
     OtherException (quoted (type_name v) @ '' object has no attribute '' @ quoted attr)"

text \<open>\<^verbatim>\<open>v.get(key, default)\<close>: only a dict has the method.\<close>

definition py_get :: "json \<Rightarrow> string \<Rightarrow> json \<Rightarrow> exc + json" where
  "py_get v key dflt =
     (case v of
        JObj kvs \<Rightarrow> Inr (case map_of kvs key of None \<Rightarrow> dflt | Some x \<Rightarrow> x)
      | _ \<Rightarrow> Inl (attribute_error v ''get''))"

text \<open>\<^verbatim>\<open>x.upper()\<close> and \<^verbatim>\<open>x.capitalize()\<close>: only a string has the methods.\<close>

definition upper_of :: "exc + json \<Rightarrow> exc + json" where
  "upper_of x =
     (case x of
        Inl e \<Rightarrow> Inl e
      | Inr (JStr s) \<Rightarrow> Inr (JStr (py_upper s))
      | Inr v \<Rightarrow> Inl (attribute_error v ''upper''))"

definition capitalize_of :: "exc + json \<Rightarrow> exc + json" where
  "capitalize_of x =
     (case x of
        Inl e \<Rightarrow> Inl e
      | Inr (JStr s) \<Rightarrow> Inr (JStr (py_capitalize s))
      | Inr v \<Rightarrow> Inl (attribute_error v ''capitalize''))"

text \<open>\<^verbatim>\<open>key in v\<close> and \<^verbatim>\<open>v[key]\<close> for a string key.\<close>

definition py_contains :: "string \<Rightarrow> json \<Rightarrow> exc + bool" where
  "py_contains key v =
     (case v of
        JObj kvs \<Rightarrow> Inr (map_of kvs key \<noteq> None)
      | JArr xs \<Rightarrow> Inr (JStr key \<in> set xs)
      | JStr s \<Rightarrow> Inr (is_substring key s)
      | _ \<Rightarrow> Inl (OtherException (''argument of type '' @ quoted (type_name v) @ '' is not iterable'')))"

definition py_getitem :: "json \<Rightarrow> string \<Rightarrow> exc + json" where
  "py_getitem v key =
     (case v of
        JObj kvs \<Rightarrow> (case map_of kvs key of None \<Rightarrow> Inl (OtherException (quoted key)) | Some x \<Rightarrow> Inr x)
      | JArr xs \<Rightarrow> Inl (OtherException ''list indices must be integers or slices, not str'')
      | JStr s \<Rightarrow> Inl (OtherException (''string indices must be integers, not '' @ quoted ''str''))
      | _ \<Rightarrow> Inl (OtherException (quoted (type_name v) @ '' object is not subscriptable'')))"

definition loads :: "pylib \<Rightarrow> string \<Rightarrow> exc + json" where
  "loads l s = (case json_loads l s of Inl m \<Rightarrow> Inl (OtherException m) | Inr v \<Rightarrow> Inr v)"

subsection \<open>\<^verbatim>\<open>upload_submission\<close> (lines 29 to 92)\<close>

definition send_post :: "string \<Rightarrow> payload \<Rightarrow> world \<Rightarrow> world" where
  "send_post endpoint p w = w\<lparr>events := events w @ [Post endpoint p]\<rparr>"

definition endpoint_not_found :: "string \<Rightarrow> exc" where
  "endpoint_not_found m =
     SubmissionError (JStr ''API endpoint not found.'')
       (Some (m @ nl @ nl @ ''Please check the submission_endpoint is correct.''))"

text \<open>The handler of \<^verbatim>\<open>RequestException\<close> (lines 69 to 92), for \<^verbatim>\<open>str(e)\<close> and
  \<^verbatim>\<open>e.response\<close>. The body of the response is decoded by \<^verbatim>\<open>e.response.json()\<close>; the bare
  \<^verbatim>\<open>except\<close> of line 80 takes every failure of lines 73 to 76.\<close>

definition handle_request_exception :: "pylib \<Rightarrow> string \<Rightarrow> response option \<Rightarrow> json io" where
  "handle_request_exception l m resp w =
     (let w1 = print (sym_cross @ '' Upload failed: '' @ m) w in
      case resp of
        None \<Rightarrow> (Inl (endpoint_not_found m), w1)
      | Some r \<Rightarrow>
          (case loads l (resp_text r) of
             Inl e \<Rightarrow>
               (Inl (endpoint_not_found m), print (''   Server response: '' @ resp_text r) w1)
           | Inr error_detail \<Rightarrow>
               (let w2 = print (''   Server response: '' @ json_dumps l error_detail) w1 in
                case py_get error_detail ''error'' (JStr m) of
                  Inl e \<Rightarrow>
                    (Inl (endpoint_not_found m),
                     print (''   Server response: '' @ resp_text r) w2)
                | Inr server_error \<Rightarrow> (Inl (SubmissionError server_error (Some m)), w2))))"

definition upload_submission :: "upenv \<Rightarrow> string \<Rightarrow> string \<Rightarrow> string \<Rightarrow> string \<Rightarrow> json io" where
  "upload_submission env key endpoint role_name file_path w =
     (case files w file_path of
        None \<Rightarrow>
          (Inl (OtherException (''[Errno 2] No such file or directory: '' @ quoted file_path)), w)
      | Some file_content \<Rightarrow>
          (let encoded_content = b64encode file_content;
               request = \<lparr>pl_api_key = key, pl_role = role_name, pl_file = encoded_content,
                          pl_filename = path_name file_path\<rparr>;
               w1 = print (sym_outbox @ '' Uploading '' @ path_name file_path @ '' (''
                           @ show_nat (length file_content) @ '' bytes)...'') w;
               w2 = send_post endpoint request w1
           in case http_post env endpoint request of
                Inr result \<Rightarrow> (Inr result, w2)
              | Inl (RequestException m resp) \<Rightarrow> handle_request_exception (lib env) m resp w2
              | Inl e \<Rightarrow> (Inl e, w2)))"

subsection \<open>\<^verbatim>\<open>main\<close> (lines 95 to 232)\<close>

text \<open>Lines 131 to 141: the response, decoded once more when it is a string, and its
  logical body.\<close>

definition normalize_result :: "pylib \<Rightarrow> json \<Rightarrow> exc + json" where
  "normalize_result l result0 =
     (case (case result0 of JStr s \<Rightarrow> loads l s | _ \<Rightarrow> Inr result0) of
        Inl e \<Rightarrow> Inl e
      | Inr result \<Rightarrow>
          (case py_contains ''body'' result of
             Inl e \<Rightarrow> Inl e
           | Inr False \<Rightarrow> Inr result
           | Inr True \<Rightarrow>
               (case py_getitem result ''body'' of
                  Inl e \<Rightarrow> Inl e
                | Inr body \<Rightarrow> (case body of JStr s \<Rightarrow> loads l s | _ \<Rightarrow> Inr body))))"

definition field :: "pylib \<Rightarrow> json \<Rightarrow> string \<Rightarrow> string \<Rightarrow> exc + string" where
  "field l body key dflt = fmt l (py_get body key (JStr dflt))"

text \<open>Lines 144 to 163.\<close>

definition print_info_steps :: "pylib \<Rightarrow> json \<Rightarrow> (unit io) list" where
  "print_info_steps l body =
     [print_stmt (lit []),
      print_stmt (lit rule60),
      print_stmt (lit (sym_check @ '' Submission Successful!'')),
      print_stmt (lit rule60),
      print_stmt (lit []),
      print_stmt (fstring [lit ''  Team: '', field l body ''team_name'' ''Unknown'']),
      print_stmt (fstring [lit ''  Role: '',
                           fmt l (upper_of (py_get body ''role'' (JStr ''Unknown'')))]),
      print_stmt (lit []),
      print_stmt (fstring [lit ''  Total Submissions: '',
                           field l body ''submission_number'' ''Unknown'']),
      print_stmt (fstring [lit ''  Attacker Submissions: '',
                           field l body ''attacker_submissions'' ''Unknown'']),
      print_stmt (fstring [lit ''  Defender Submissions: '',
                           field l body ''defender_submissions'' ''Unknown'']),
      print_stmt (fstring [lit ''  This '',
                           fmt l (capitalize_of (py_get body ''role'' (JStr ''Unknown''))),
                           lit '' Submission: #'',
                           field l body ''role_submission_number'' ''Unknown'']),
      print_stmt (lit []),
      print_stmt (fstring [lit ''  Files: '', field l body ''file_count'' ''Unknown'',
                           lit '' files ('', field l body ''total_size'' ''Unknown'',
                           lit '' bytes)'']),
      print_stmt (fstring [lit ''  Time: '', field l body ''submission_time'' ''Unknown'']),
      print_stmt (fstring [lit ''  S3 Prefix: '', field l body ''s3_prefix'' ''Unknown'']),
      print_stmt (lit []),
      print_stmt (fstring [lit ''  Message: '', field l body ''message'' ''No message'']),
      print_stmt (lit [])]"

text \<open>\<^verbatim>\<open>with open(p, 'a') as f\<close>: the file exists from here on.\<close>

definition open_append :: "string \<Rightarrow> unit io" where
  "open_append p w = (Inr (), w\<lparr>files := (files w)(p \<mapsto> old_content w p)\<rparr>)"

text \<open>Lines 166 to 170.\<close>

definition output_steps :: "upenv \<Rightarrow> json \<Rightarrow> (unit io) list" where
  "output_steps env body =
     (case getenv env ''GITHUB_OUTPUT'' of
        None \<Rightarrow> []
      | Some p \<Rightarrow>
          (if p = [] then []
           else
             [open_append p,
              write_stmt p (lit (''status=success'' @ nl)),
              write_stmt p (fstring [lit ''submission_number='',
                                     field (lib env) body ''submission_number'' ''Unknown'',
                                     lit nl]),
              write_stmt p (fstring [lit ''message='',
                                     field (lib env) body ''message'' ''Submission successful'',
                                     lit nl])]))"

text \<open>Lines 192 to 203: the collapsible list of the uploaded files. Reading the file
  list is inside the \<^verbatim>\<open>try\<close>, and what it raises ends the block.\<close>

definition file_list_stmt :: "upenv \<Rightarrow> args \<Rightarrow> string \<Rightarrow> unit io" where
  "file_list_stmt env a p w =
     (case arg_file_list a of
        None \<Rightarrow> (Inr (), w)
      | Some fl \<Rightarrow>
          (if fl \<noteq> [] \<and> path_exists w fl then
             (case read_text env fl (old_content w fl) of
                Inl m \<Rightarrow> (Inl (OtherException m), w)
              | Inr content \<Rightarrow>
                  (let names = filter (\<lambda>f. f \<noteq> []) (py_split (CHR 0x0A) (py_strip content));
                       path_prefix = py_rstrip (CHR ''/'')
                                       (case arg_submission_path a of None \<Rightarrow> [] | Some sp \<Rightarrow> sp)
                   in if names \<noteq> [] then
                        run_steps
                          ([write_stmt p (lit (nl @ ''<details>'' @ nl @ ''<summary>'' @ sym_folder
                                               @ '' Uploaded Files ('' @ path_prefix @ ''/)</summary>''
                                               @ nl @ nl)),
                            write_stmt p (lit (''```'' @ nl))]
                           @ map (\<lambda>f. write_stmt p (lit (path_prefix @ ''/'' @ f @ nl))) names
                           @ [write_stmt p (lit (''```'' @ nl @ ''</details>'' @ nl))]) w
                      else (Inr (), w)))
           else (Inr (), w)))"

definition raise_stmt :: "exc \<Rightarrow> unit io" where
  "raise_stmt e w = (Inl e, w)"

text \<open>Lines 173 to 203.\<close>

definition summary_steps :: "upenv \<Rightarrow> args \<Rightarrow> json \<Rightarrow> (unit io) list" where
  "summary_steps env a body =
     (case getenv env ''GITHUB_STEP_SUMMARY'' of
        None \<Rightarrow> []
      | Some p \<Rightarrow>
          (if p = [] then []
           else
             (case py_get body ''role'' (JStr ''unknown'') of
                Inl e \<Rightarrow> [raise_stmt e]
              | Inr role_value \<Rightarrow>
                  (let l = lib env;
                       role_emoji = (if role_value = JStr ''attacker'' then sym_red else sym_blue)
                   in
                    [open_append p,
                     write_stmt p (lit (''## '' @ role_emoji @ '' Submission Successful!'' @ nl @ nl)),
                     write_stmt p (fstring [lit ''### Team: **'',
                                            field l body ''team_name'' ''Unknown'',
                                            lit (''**'' @ nl @ nl)]),
                     write_stmt p (lit (''| Metric | Value |'' @ nl)),
                     write_stmt p (lit (''|--------|-------|'' @ nl)),
                     write_stmt p (fstring [lit ''| **Role** | '',
                                            fmt l (upper_of (Inr role_value)),
                                            lit ('' |'' @ nl)]),
                     write_stmt p (fstring [lit ''| **This Submission** | #'',
                                            field l body ''role_submission_number'' ''?'',
                                            lit ('' |'' @ nl)]),
                     write_stmt p (fstring [lit ''| **Total Submissions** | '',
                                            field l body ''submission_number'' ''?'',
                                            lit ('' |'' @ nl)]),
                     write_stmt p (fstring [lit ''| **Attacker Submissions** | '',
                                            field l body ''attacker_submissions'' ''?'',
                                            lit ('' |'' @ nl)]),
                     write_stmt p (fstring [lit ''| **Defender Submissions** | '',
                                            field l body ''defender_submissions'' ''?'',
                                            lit ('' |'' @ nl)]),
                     write_stmt p (fstring [lit ''| **Files Uploaded** | '',
                                            field l body ''file_count'' ''?'',
                                            lit ('' |'' @ nl)]),
                     write_stmt p (fstring [lit ''| **Total Size** | '',
                                            field l body ''total_size'' ''?'',
                                            lit ('' bytes |'' @ nl)]),
                     write_stmt p (fstring [lit ''| **Submission Time** | '',
                                            field l body ''submission_time'' ''?'',
                                            lit ('' |'' @ nl)]),
                     write_stmt p (fstring [lit (nl @ ''> '' @ sym_bulb @ '' ''),
                                            field l body ''message'' ''Submission successful'',
                                            lit nl]),
                     file_list_stmt env a p]))))"

text \<open>Lines 125 to 205, the body of the \<^verbatim>\<open>try\<close>: \<^term>\<open>Inr ()\<close> is reaching \<^verbatim>\<open>sys.exit(0)\<close>,
  whose \<^verbatim>\<open>SystemExit\<close> the handler of line 207 does not take.\<close>

definition try_block :: "upenv \<Rightarrow> args \<Rightarrow> unit io" where
  "try_block env a w =
     (case upload_submission env (arg_api_key a) (arg_endpoint a) (arg_role a) (arg_file a) w of
        (Inl e, w1) \<Rightarrow> (Inl e, w1)
      | (Inr result, w1) \<Rightarrow>
          (let w2 = write_file ''submission_result.json'' (json_dumps (lib env) result) w1 in
           case normalize_result (lib env) result of
             Inl e \<Rightarrow> (Inl e, w2)
           | Inr body \<Rightarrow>
               run_steps
                 ((if arg_print_info a then print_info_steps (lib env) body else [])
                  @ output_steps env body
                  @ summary_steps env a body) w2))"

text \<open>Lines 207 to 232, the handler of every \<^verbatim>\<open>Exception\<close>.\<close>

definition failure_block :: "upenv \<Rightarrow> exc \<Rightarrow> world \<Rightarrow> world" where
  "failure_block env e w =
     (let l = lib env;
          w1 = print [] (print (''  Error: '' @ exc_str l e) (print [] (print rule60
                 (print (sym_cross @ '' Submission Failed!'') (print rule60 (print [] w))))));
          w2 = (case getenv env ''GITHUB_OUTPUT'' of
                  None \<Rightarrow> w1
                | Some p \<Rightarrow>
                    (if p = [] then w1
                     else append_file p (''message=Submission failed: '' @ exc_str l e @ nl)
                            (append_file p (''status=failure'' @ nl) w1)))
      in case getenv env ''GITHUB_STEP_SUMMARY'' of
           None \<Rightarrow> w2
         | Some p \<Rightarrow>
             (if p = [] then w2
              else
                (let w3 = append_file p (''## '' @ sym_cross @ '' Submission Failed'' @ nl @ nl) w2 in
                 case e of
                   SubmissionError title details \<Rightarrow>
                     (if truthy details then
                        append_file p (''```'' @ nl @ (case details of None \<Rightarrow> [] | Some d \<Rightarrow> d)
                                       @ nl @ ''```'' @ nl)
                          (append_file p (''**Error:** '' @ py_str l title @ nl @ nl) w3)
                      else append_file p (''**Error:** '' @ exc_str l e @ nl) w3)
                 | _ \<Rightarrow> append_file p (''**Error:** '' @ exc_str l e @ nl) w3)))"

text \<open>\<^verbatim>\<open>main\<close> on the parsed arguments: the exit code and the world after the run.\<close>

definition upload_main :: "upenv \<Rightarrow> args \<Rightarrow> world \<Rightarrow> int \<times> world" where
  "upload_main env a w =
     (let file_path = arg_file a in
      if \<not> path_exists w file_path then
        (1, print (sym_cross @ '' Error: File not found: '' @ file_path) w)
      else
        (let w1 = (if path_suffix file_path \<noteq> ''.zip''
                   then print (sym_warning @ ''  Warning: File does not have .zip extension: ''
                               @ file_path) w
                   else w);
             w2 = print [] (print rule60 (print (sym_rocket @ '' Competition Submission Upload (''
                    @ py_upper (arg_role a) @ '')'') (print rule60 w1)))
         in case try_block env a w2 of
              (Inr u, w3) \<Rightarrow> (0, w3)
            | (Inl e, w3) \<Rightarrow> (1, failure_block env e w3)))"

section \<open>The source validator (\<^verbatim>\<open>validate_python.py\<close>)\<close>

text \<open>
  What a check of one file can raise: \<^verbatim>\<open>SyntaxError\<close> (or a subclass) with \<^verbatim>\<open>e.lineno\<close> and
  \<^verbatim>\<open>e.msg\<close>; \<^verbatim>\<open>py_compile.PyCompileError\<close> with \<^verbatim>\<open>str(e)\<close>; any other \<^verbatim>\<open>Exception\<close> with
  \<^verbatim>\<open>str(e)\<close>.
\<close>

datatype raised =
    SyntaxError "int option" string
  | PyCompileError string
  | Failure string

text \<open>
  The environment of a run. \<^verbatim>\<open>rglob_py root\<close> lists the matches of
  \<^verbatim>\<open>root.rglob('*.py')\<close> by their paths below the root, in the order of the traversal. For
  a file, \<^verbatim>\<open>read_source\<close> is what reading it raises inside \<^verbatim>\<open>py_compile.compile\<close>,
  \<^verbatim>\<open>source_to_code\<close> what compiling its source raises, \<^verbatim>\<open>write_bytecode\<close> what storing
  the compiled code raises, and \<^verbatim>\<open>read_and_parse\<close> what lines 34 to 36 (\<^verbatim>\<open>open\<close>, \<^verbatim>\<open>read\<close>,
  \<^verbatim>\<open>ast.parse\<close>) raise. \<^verbatim>\<open>format_compile_error\<close> is the message \<^verbatim>\<open>PyCompileError\<close> builds
  from the file name and the error it wraps.
\<close>

record valenv =
  dir_exists :: "string \<Rightarrow> bool"
  rglob_py :: "string \<Rightarrow> string list"
  has_requirements :: "string \<Rightarrow> bool"
  read_source :: "string \<Rightarrow> raised option"
  source_to_code :: "string \<Rightarrow> raised option"
  write_bytecode :: "string \<Rightarrow> raised option"
  read_and_parse :: "string \<Rightarrow> raised option"
  format_compile_error :: "string \<Rightarrow> raised \<Rightarrow> string"

text \<open>
  \<^verbatim>\<open>py_compile.compile(file, doraise=True)\<close> of the Python library: the source is read
  outside the \<^verbatim>\<open>try\<close>; every \<^verbatim>\<open>Exception\<close> of compiling it, a \<^verbatim>\<open>SyntaxError\<close> included, is
  caught there and raised again as a \<^verbatim>\<open>PyCompileError\<close>; the compiled code is then stored.
\<close>

definition py_compile_compile :: "valenv \<Rightarrow> string \<Rightarrow> raised option" where
  "py_compile_compile env f =
     (case read_source env f of
        Some e \<Rightarrow> Some e
      | None \<Rightarrow>
          (case source_to_code env f of
             Some err \<Rightarrow> Some (PyCompileError (format_compile_error env f err))
           | None \<Rightarrow> write_bytecode env f))"

definition show_lineno :: "int option \<Rightarrow> string" where
  "show_lineno n = (case n of None \<Rightarrow> ''None'' | Some i \<Rightarrow> show_int i)"

text \<open>The two handlers of lines 39 to 42.\<close>

definition handle_raised :: "raised \<Rightarrow> bool \<times> string" where
  "handle_raised e =
     (case e of
        SyntaxError lineno msg \<Rightarrow> (False, ''Syntax error at line '' @ show_lineno lineno @ '': '' @ msg)
      | PyCompileError m \<Rightarrow> (False, ''Error: '' @ m)
      | Failure m \<Rightarrow> (False, ''Error: '' @ m))"

definition validate_python_syntax :: "valenv \<Rightarrow> string \<Rightarrow> bool \<times> string" where
  "validate_python_syntax env file_path =
     (case py_compile_compile env file_path of
        Some e \<Rightarrow> handle_raised e
      | None \<Rightarrow>
          (case read_and_parse env file_path of
             Some e \<Rightarrow> handle_raised e
           | None \<Rightarrow> (True, [])))"

definition join_path :: "string \<Rightarrow> string \<Rightarrow> string" where
  "join_path root rel = root @ ''/'' @ rel"

text \<open>\<^verbatim>\<open>p.relative_to(root)\<close>: \<^term>\<open>None\<close> is the \<^verbatim>\<open>ValueError\<close> for a path not below the root.\<close>

definition relative_to :: "string \<Rightarrow> string \<Rightarrow> string option" where
  "relative_to root p =
     (if is_prefix (root @ ''/'') p then Some (drop (length root + 1) p) else None)"

definition python_files_of :: "valenv \<Rightarrow> string \<Rightarrow> string list" where
  "python_files_of env root = map (join_path root) (rglob_py env root)"

definition check_required_structure :: "valenv \<Rightarrow> string \<Rightarrow> bool \<times> string list" where
  "check_required_structure env submission_path =
     (if python_files_of env submission_path = [] then
        (False, [''No Python files found in submission''])
      else
        (True,
         (if \<not> has_requirements env submission_path
          then [''No requirements.txt found - make sure all dependencies are documented'']
          else [])))"

definition out_line :: "string \<Rightarrow> string" where
  "out_line s = s @ nl"

definition warning_lines :: "string list \<Rightarrow> string" where
  "warning_lines ws = concat (map (\<lambda>x. out_line (''  - '' @ x)) ws)"

text \<open>
  The loop of lines 105 to 114 over the files still to check, from the text printed so
  far and the errors collected so far: the text printed, and the errors, or \<^term>\<open>None\<close>
  when \<^verbatim>\<open>relative_to\<close> raises.
\<close>

fun check_files ::
  "valenv \<Rightarrow> string \<Rightarrow> string list \<Rightarrow> string \<Rightarrow> (string \<times> string) list
     \<Rightarrow> string \<times> (string \<times> string) list option" where
  "check_files env root [] out errors = (out, Some errors)"
| "check_files env root (py_file # rest) out errors =
     (case relative_to root py_file of
        None \<Rightarrow> (out, None)
      | Some relative_path \<Rightarrow>
          (let out1 = out @ ''  Checking '' @ relative_path @ ''...'' @ '' '' in
           case validate_python_syntax env py_file of
             (True, error_msg) \<Rightarrow> check_files env root rest (out1 @ out_line sym_check) errors
           | (False, error_msg) \<Rightarrow>
               check_files env root rest (out1 @ out_line sym_cross)
                 (errors @ [(relative_path, error_msg)])))"

definition report_lines :: "(string \<times> string) list \<Rightarrow> string" where
  "report_lines errors =
     concat (map (\<lambda>(file_path, error_msg).
                    out_line (''  '' @ file_path @ '':'') @ out_line (''    '' @ error_msg)) errors)"

text \<open>\<^verbatim>\<open>main\<close> on \<^verbatim>\<open>sys.argv\<close>: the exit code and the text printed on standard output,
  which takes every character. An exception nobody catches ends the process with code 1.\<close>

definition validate_main :: "valenv \<Rightarrow> string list \<Rightarrow> int \<times> string" where
  "validate_main env argv =
     (if length argv < 2 then (1, out_line (sym_cross @ '' Error: No submission path provided''))
      else
        (let submission_path = argv ! 1 in
         if \<not> dir_exists env submission_path then
           (1, out_line (sym_cross @ '' Error: Submission path does not exist: '' @ submission_path))
         else
           (let out0 = out_line (sym_folder @ '' Path: '' @ submission_path) in
            case check_required_structure env submission_path of
              (False, warnings) \<Rightarrow>
                (1, out0 @ out_line (sym_cross @ '' Validation failed:'') @ warning_lines warnings)
            | (True, warnings) \<Rightarrow>
                (let out1 = (if warnings \<noteq> []
                             then out0 @ out_line (sym_warning @ ''  Warnings:'')
                                  @ warning_lines warnings @ out_line []
                             else out0);
                     python_files = python_files_of env submission_path;
                     out2 = out1 @ out_line (sym_memo @ '' Found '' @ show_nat (length python_files)
                                             @ '' Python file(s)'') @ out_line []
                 in case check_files env submission_path python_files out2 [] of
                      (out3, None) \<Rightarrow> (1, out3)
                    | (out3, Some errors) \<Rightarrow>
                        (let out4 = out3 @ out_line [] @ out_line rule60 in
                         if errors \<noteq> [] then
                           (1, out4 @ out_line (sym_cross @ '' Validation failed with ''
                                                @ show_nat (length errors) @ '' error(s):'')
                               @ out_line [] @ report_lines errors)
                         else
                           (0, out4 @ out_line (sym_check @ '' All Python files validated successfully!'')
                               @ out_line (''   '' @ show_nat (length python_files)
                                           @ '' file(s) checked'')))))))"

section \<open>The metadata collector (\<^verbatim>\<open>create_git_info.py\<close>)\<close>

text \<open>
  What \<^verbatim>\<open>subprocess.check_output\<close> raises: \<^verbatim>\<open>CalledProcessError\<close> when the command ends with
  a code other than 0, \<^verbatim>\<open>FileNotFoundError\<close> when there is no such program, or any other
  exception, with its text. \<^verbatim>\<open>run\<close> below is \<^verbatim>\<open>check_output\<close> on a command line: the text
  the command printed, or what was raised.
\<close>

datatype proc_exc =
    CalledProcessError
  | FileNotFoundError
  | ProcFailure string

definition git_cmd :: "(string list \<Rightarrow> proc_exc + string) \<Rightarrow> string list \<Rightarrow> proc_exc + string" where
  "git_cmd run a =
     (case run (''git'' # a) of
        Inr out \<Rightarrow> Inr (py_strip out)
      | Inl CalledProcessError \<Rightarrow> Inr []
      | Inl FileNotFoundError \<Rightarrow> Inr []
      | Inl e \<Rightarrow> Inl e)"

text \<open>\<^verbatim>\<open>x.split('\n')[0]\<close>.\<close>

definition first_line :: "proc_exc + string \<Rightarrow> proc_exc + string" where
  "first_line x =
     (case x of
        Inl e \<Rightarrow> Inl e
      | Inr s \<Rightarrow>
          (case py_split (CHR 0x0A) s of
             [] \<Rightarrow> Inl (ProcFailure ''list index out of range'')
           | y # ys \<Rightarrow> Inr y))"

text \<open>A dict display evaluates its values in order; the first exception ends it.\<close>

fun build_dict :: "(string \<times> (proc_exc + string)) list \<Rightarrow> proc_exc + (string \<times> string) list" where
  "build_dict [] = Inr []"
| "build_dict ((k, x) # rest) =
     (case x of
        Inl e \<Rightarrow> Inl e
      | Inr v \<Rightarrow> (case build_dict rest of Inl e \<Rightarrow> Inl e | Inr items \<Rightarrow> Inr ((k, v) # items)))"

definition collect_info :: "(string list \<Rightarrow> proc_exc + string) \<Rightarrow> proc_exc + (string \<times> string) list" where
  "collect_info run =
     build_dict
       [(''commit'', git_cmd run [''rev-parse'', ''HEAD'']),
        (''commit_short'', git_cmd run [''rev-parse'', ''--short'', ''HEAD'']),
        (''message'', first_line (git_cmd run [''log'', ''-1'', ''--pretty=%B''])),
        (''branch'', git_cmd run [''rev-parse'', ''--abbrev-ref'', ''HEAD'']),
        (''tag'', git_cmd run [''describe'', ''--tags'', ''--exact-match'']),
        (''remote_url'', git_cmd run [''remote'', ''get-url'', ''origin'']),
        (''author'', git_cmd run [''log'', ''-1'', ''--pretty=%an'']),
        (''author_email'', git_cmd run [''log'', ''-1'', ''--pretty=%ae'']),
        (''commit_timestamp'', git_cmd run [''log'', ''-1'', ''--pretty=%aI''])]"

text \<open>\<^verbatim>\<open>main\<close>: the record, written to \<^verbatim>\<open>GIT_INFO.json\<close> and printed.\<close>

definition git_info_main ::
  "pylib \<Rightarrow> (string list \<Rightarrow> proc_exc + string) \<Rightarrow> world
     \<Rightarrow> (proc_exc + (string \<times> string) list) \<times> world" where
  "git_info_main l run w =
     (case collect_info run of
        Inl e \<Rightarrow> (Inl e, w)
      | Inr info \<Rightarrow>
          (let text = json_dumps l (JObj (map (\<lambda>(k, v). (k, JStr v)) info)) in
           (Inr info,
            print text (print ''GIT_INFO.json created:'' (write_file ''GIT_INFO.json'' text w)))))"

section \<open>Observations and example runs\<close>

text \<open>The requests a list of events holds, in order, and the events a run added.\<close>

definition posts_of :: "event list \<Rightarrow> (string \<times> payload) list" where
  "posts_of evs = concat (map (\<lambda>ev. case ev of Post e p \<Rightarrow> [(e, p)] | _ \<Rightarrow> []) evs)"

definition new_events :: "world \<Rightarrow> world \<Rightarrow> event list" where
  "new_events w w' = drop (length (events w)) (events w')"

text \<open>The \<^verbatim>\<open>role\<close> of a logical body is absent or a string.\<close>

definition role_is_text :: "(string \<times> json) list \<Rightarrow> bool" where
  "role_is_text kvs = 
     (case map_of kvs ''role'' of None \<Rightarrow> True | Some (JStr s) \<Rightarrow> True | Some v \<Rightarrow> False)"


text \<open>
  The inputs of the example runs. \<^verbatim>\<open>example_lib\<close> answers as the Python library does on
  the texts and values of the examples: a server error body, a logical body, and a page
  that is not JSON.
\<close>

definition dq :: string where
  "dq = [CHR 0x22]"

definition error_body_text :: string where
  "error_body_text = ''{'' @ dq @ ''error'' @ dq @ '': '' @ dq @ ''invalid role'' @ dq @ ''}''"

definition logical_body_text :: string where
  "logical_body_text =
     ''{'' @ dq @ ''team_name'' @ dq @ '': '' @ dq @ ''Foo'' @ dq @ '', ''
     @ dq @ ''submission_number'' @ dq @ '': 3}''"

definition error_body :: json where
  "error_body = JObj [(''error'', JStr ''invalid role'')]"

definition logical_body :: json where
  "logical_body = JObj [(''team_name'', JStr ''Foo''), (''submission_number'', JInt 3)]"

definition example_lib :: pylib where
  "example_lib =
     \<lparr>json_loads = (\<lambda>s. if s = error_body_text then Inr error_body
                         else if s = logical_body_text then Inr logical_body
                         else Inl ''Expecting value: line 1 column 1 (char 0)''),
      json_dumps = (\<lambda>v. if v = error_body
                         then ''{'' @ nl @ ''  '' @ dq @ ''error'' @ dq @ '': '' @ dq
                              @ ''invalid role'' @ dq @ nl @ ''}''
                         else if v = JObj [] then ''{}''
                         else ''null''),
      py_repr = (\<lambda>v. if v = JObj [] then ''{}'' else ''[]'')\<rparr>"

text \<open>UTF-8 text read with every line ending as a line feed.\<close>

fun universal_newlines :: "string \<Rightarrow> string" where
  "universal_newlines [] = []"
| "universal_newlines [c] = (if c = CHR 0x0D then [CHR 0x0A] else [c])"
| "universal_newlines (c # d # cs) =
     (if c = CHR 0x0D \<and> d = CHR 0x0A then CHR 0x0A # universal_newlines cs
      else if c = CHR 0x0D then CHR 0x0A # universal_newlines (d # cs)
      else c # universal_newlines (d # cs))"

text \<open>
  In the environment of the examples the file \<^verbatim>\<open>latin1_list.txt\<close> holds bytes that are not
  UTF-8, and reading it raises; every other file is read as UTF-8 text.
\<close>

definition example_env :: "(exc + json) \<Rightarrow> upenv" where
  "example_env outcome =
     \<lparr>lib = example_lib,
      getenv = [''GITHUB_OUTPUT'' \<mapsto> ''gh_output.txt'', ''GITHUB_STEP_SUMMARY'' \<mapsto> ''gh_summary.md''],
      http_post = (\<lambda>endpoint request. outcome),
      read_text = (\<lambda>p bytes.
        if p = ''latin1_list.txt''
        then Inl (quoted ''utf-8'' @ '' codec can'' @ [CHR 0x27] @ ''t decode byte 0xe9 in position 1: ''
                  @ ''invalid continuation byte'')
        else Inr (universal_newlines bytes))\<rparr>"

definition example_args :: args where
  "example_args =
     \<lparr>arg_api_key = ''secret'', arg_endpoint = ''https://example.test/submit'',
      arg_role = ''attacker'', arg_file = ''submission.zip'', arg_file_list = None,
      arg_submission_path = None, arg_print_info = True\<rparr>"

definition example_world :: world where
  "example_world = \<lparr>files = [''submission.zip'' \<mapsto> ''PK'' @ [CHR 0x03, CHR 0x04, CHR 0xFF]], events = []\<rparr>"

text \<open>The same world with two file lists: one of two names, one that is not UTF-8.\<close>

definition listed_world :: world where
  "listed_world =
     example_world\<lparr>files := (files example_world)
        (''files.txt'' \<mapsto> ''agent.py'' @ nl @ ''util/helpers.py'' @ nl,
         ''latin1_list.txt'' \<mapsto> ''r'' @ [CHR 0xE9] @ ''sum'' @ [CHR 0xE9] @ ''.py'' @ nl)\<rparr>"

definition bad_request :: exc where
  "bad_request =
     RequestException ''400 Client Error: Bad Request for url: https://example.test/submit''
       (Some \<lparr>resp_text = error_body_text\<rparr>)"

definition not_found_page :: exc where
  "not_found_page =
     RequestException ''404 Client Error: Not Found for url: https://example.test/submit''
       (Some \<lparr>resp_text = ''<html>Not Found</html>''\<rparr>)"

text \<open>
  A submission directory \<^verbatim>\<open>sub\<close> with two source files, of which \<^verbatim>\<open>pkg/bad.py\<close> starts with
  the line \<^verbatim>\<open>def f(:\<close>, and a directory \<^verbatim>\<open>empty\<close> with none. The compile error is
  formatted as \<^verbatim>\<open>PyCompileError\<close> formats it for that file.
\<close>

definition example_valenv :: valenv where
  "example_valenv =
     \<lparr>dir_exists = (\<lambda>p. p = ''sub'' \<or> p = ''empty''),
      rglob_py = (\<lambda>root. if root = ''sub'' then [''pkg/bad.py'', ''good.py''] else []),
      has_requirements = (\<lambda>root. False),
      read_source = (\<lambda>f. None),
      source_to_code =
        (\<lambda>f. if f = ''sub/pkg/bad.py'' then Some (SyntaxError (Some 1) ''invalid syntax'') else None),
      write_bytecode = (\<lambda>f. None),
      read_and_parse =
        (\<lambda>f. if f = ''sub/pkg/bad.py'' then Some (SyntaxError (Some 1) ''invalid syntax'') else None),
      format_compile_error =
        (\<lambda>f e. case e of
                  SyntaxError lineno msg \<Rightarrow>
                    ''  File '' @ dq @ f @ dq @ '', line '' @ show_lineno lineno @ nl
                    @ ''    def f(:'' @ nl @ ''          ^'' @ nl @ ''SyntaxError: '' @ msg @ nl
                | PyCompileError m \<Rightarrow> ''Sorry: PyCompileError: '' @ m
                | Failure m \<Rightarrow> ''Sorry: Exception: '' @ m)\<rparr>"

text \<open>The same directory after the broken file is repaired.\<close>

definition repaired_valenv :: valenv where
  "repaired_valenv =
     example_valenv\<lparr>source_to_code := (\<lambda>f. None), read_and_parse := (\<lambda>f. None)\<rparr>"



definition no_git :: "string list \<Rightarrow> proc_exc + string" where
  "no_git cmd = Inl FileNotFoundError"



section \<open>Properties\<close>

subsection \<open>Base64: decoding what was encoded\<close>

lemma of_char_b64_char:
  "i < 64 \<Longrightarrow> (of_char (b64_char i) :: nat) =
     (if i < 26 then 65 + i else if i < 52 then 71 + i else if i < 62 then i - 4
      else if i = 62 then 43 else 47)"
  by (simp add: b64_char_def)

lemma b64_index_char: "i < 64 \<Longrightarrow> b64_index (b64_char i) = Some i"
  by (auto simp add: b64_index_def of_char_b64_char Let_def)

lemma b64_char_not_pad: "i < 64 \<Longrightarrow> b64_char i \<noteq> CHR ''=''"
proof
  assume a: "i < 64" and "b64_char i = CHR ''=''"
  then have "(of_char (b64_char i) :: nat) = 61" by simp
  with a show False by (simp add: of_char_b64_char split: if_splits)
qed

lemma byte_val_lt: "byte_val a < 256"
  by (simp add: byte_val_def)

lemma char_of_byte_val: "char_of (byte_val a) = a"
  by (simp add: byte_val_def)

lemma sextet_lo: "y < 256 \<Longrightarrow> y div 16 < (16::nat)" "z < 256 \<Longrightarrow> z div 64 < (4::nat)"
  by simp_all

lemma regroup1:
  assumes "y < (256::nat)"
  shows "x div 4 * 4 + (x mod 4 * 16 + y div 16) div 16 = x"
proof -
  have "y div 16 div 16 = 0" using sextet_lo(1) [OF assms] by simp
  then have "(x mod 4 * 16 + y div 16) div 16 = x mod 4" by simp
  then show ?thesis by simp
qed

lemma regroup2:
  assumes "y < (256::nat)" "z < (256::nat)"
  shows "(x mod 4 * 16 + y div 16) mod 16 * 16 + (y mod 16 * 4 + z div 64) div 4 = y"
proof -
  have "z div 64 div 4 = 0" using sextet_lo(2) [OF assms(2)] by simp
  then have a: "(y mod 16 * 4 + z div 64) div 4 = y mod 16" by simp
  have b: "(x mod 4 * 16 + y div 16) mod 16 = y div 16"
    using sextet_lo(1) [OF assms(1)] by simp
  show ?thesis unfolding a b by simp
qed

lemma regroup3:
  assumes "z < (256::nat)"
  shows "(y mod 16 * 4 + z div 64) mod 4 * 64 + z mod 64 = z"
proof -
  have "(y mod 16 * 4 + z div 64) mod 4 = z div 64"
    using sextet_lo(2) [OF assms] by simp
  then show ?thesis by simp
qed

lemma sextet_bounds:
  "x < 256 \<Longrightarrow> x div 4 < (64::nat)"
  "y < 256 \<Longrightarrow> x mod 4 * 16 + y div 16 < (64::nat)"
  "z < 256 \<Longrightarrow> y mod 16 * 4 + z div 64 < (64::nat)"
  "z mod 64 < (64::nat)"
proof -
  show "x < 256 \<Longrightarrow> x div 4 < (64::nat)" by simp
  show "z mod 64 < (64::nat)" by simp
  have "x mod 4 < 4" by simp
  then have "x mod 4 * 16 \<le> 48" by simp
  moreover have "y < 256 \<Longrightarrow> y div 16 < 16" by simp
  ultimately show "y < 256 \<Longrightarrow> x mod 4 * 16 + y div 16 < (64::nat)" by linarith
  have "y mod 16 < 16" by simp
  then have "y mod 16 * 4 \<le> 60" by simp
  moreover have "z < 256 \<Longrightarrow> z div 64 < 4" by simp
  ultimately show "z < 256 \<Longrightarrow> y mod 16 * 4 + z div 64 < (64::nat)" by linarith
qed

lemma decode_quad:
  assumes "s1 < 64" "s2 < 64" "s3 < 64" "s4 < 64"
  shows "b64decode (b64_char s1 # b64_char s2 # b64_char s3 # b64_char s4 # r) =
    (case b64decode r of
       None \<Rightarrow> None
     | Some bs \<Rightarrow>
         Some (char_of (s1 * 4 + s2 div 16) # char_of (s2 mod 16 * 16 + s3 div 4)
               # char_of (s3 mod 4 * 64 + s4) # bs))"
  using assms by (simp add: b64_index_char b64_char_not_pad)

lemma decode_pad1:
  assumes "s1 < 64" "s2 < 64" "s3 < 64"
  shows "b64decode [b64_char s1, b64_char s2, b64_char s3, CHR ''=''] =
     Some [char_of (s1 * 4 + s2 div 16), char_of (s2 mod 16 * 16 + s3 div 4)]"
  using assms by (simp add: b64_index_char b64_char_not_pad)

lemma decode_pad2:
  assumes "s1 < 64" "s2 < 64"
  shows "b64decode [b64_char s1, b64_char s2, CHR ''='', CHR ''=''] =
     Some [char_of (s1 * 4 + s2 div 16)]"
  using assms by (simp add: b64_index_char)

lemma enc_one: "b64decode (b64encode [a]) = Some [a]"
proof -
  define x where "x = byte_val a"
  have x: "x < 256" unfolding x_def by (rule byte_val_lt)
  have s: "x div 4 < 64" "x mod 4 * 16 < 64"
    using sextet_bounds(1) [OF x] sextet_bounds(2) [of 0 x] by simp_all
  have r: "x div 4 * 4 + (x mod 4 * 16) div 16 = x"
    using regroup1 [of 0 x] by simp
  have "b64decode (b64encode [a]) = Some [char_of (x div 4 * 4 + (x mod 4 * 16) div 16)]"
    unfolding b64encode.simps x_def [symmetric] using s by (rule decode_pad2)
  then show ?thesis unfolding r by (simp add: x_def char_of_byte_val)
qed

lemma enc_two: "b64decode (b64encode [a, b]) = Some [a, b]"
proof -
  define x y where "x = byte_val a" and "y = byte_val b"
  have x: "x < 256" and y: "y < 256" unfolding x_def y_def by (rule byte_val_lt)+
  have s: "x div 4 < 64" "x mod 4 * 16 + y div 16 < 64" "y mod 16 * 4 < 64"
    using sextet_bounds(1) [OF x] sextet_bounds(2) [OF y] sextet_bounds(3) [of 0 y] by simp_all
  have r: "x div 4 * 4 + (x mod 4 * 16 + y div 16) div 16 = x"
     "(x mod 4 * 16 + y div 16) mod 16 * 16 + (y mod 16 * 4) div 4 = y"
    using regroup1 [OF y] regroup2 [OF y, of 0 x] by simp_all
  have "b64decode (b64encode [a, b]) =
      Some [char_of (x div 4 * 4 + (x mod 4 * 16 + y div 16) div 16),
            char_of ((x mod 4 * 16 + y div 16) mod 16 * 16 + (y mod 16 * 4) div 4)]"
    unfolding b64encode.simps x_def [symmetric] y_def [symmetric] using s by (rule decode_pad1)
  then show ?thesis unfolding r by (simp add: x_def y_def char_of_byte_val)
qed

lemma enc_three:
  assumes "b64decode (b64encode rest) = Some rest"
  shows "b64decode (b64encode (a # b # c # rest)) = Some (a # b # c # rest)"
proof -
  define x y z where "x = byte_val a" and "y = byte_val b" and "z = byte_val c"
  have x: "x < 256" and y: "y < 256" and z: "z < 256"
    unfolding x_def y_def z_def by (rule byte_val_lt)+
  note s = sextet_bounds(1) [OF x] sextet_bounds(2) [OF y, of x] sextet_bounds(3) [OF z, of y]
    sextet_bounds(4) [of z]
  note r = regroup1 [OF y, of x] regroup2 [OF y z, of x] regroup3 [OF z, of y]
  have "b64decode (b64encode (a # b # c # rest)) =
     b64decode (b64_char (x div 4) # b64_char (x mod 4 * 16 + y div 16) #
                b64_char (y mod 16 * 4 + z div 64) # b64_char (z mod 64) # b64encode rest)"
    by (simp add: x_def y_def z_def)
  also have "\<dots> = Some (char_of x # char_of y # char_of z # rest)"
    unfolding decode_quad [OF s] r assms by simp
  finally show ?thesis by (simp add: x_def y_def z_def char_of_byte_val)
qed

text \<open>
  Decoding the encoding of any byte string gives the byte string back.
\<close>

lemma b64_roundtrip: "b64decode (b64encode bs) = Some bs"
proof (induction bs rule: b64encode.induct)
  case 1
  show ?case by simp
next
  case (2 a)
  show ?case by (rule enc_one)
next
  case (3 a b)
  show ?case by (rule enc_two)
next
  case (4 a b c rest)
  then show ?case by (rule enc_three)
qed

subsection \<open>The uploader: events of a run\<close>

lemma posts_of_append: "posts_of (xs @ ys) = posts_of xs @ posts_of ys"
  by (simp add: posts_of_def)

lemma posts_of_print: "posts_of (events (print s w)) = posts_of (events w)"
  by (simp add: print_def posts_of_def)

lemma posts_of_send: "posts_of (events (send_post e p w)) = posts_of (events w) @ [(e, p)]"
  by (simp add: send_post_def posts_of_def)

lemma posts_of_handler:
  "posts_of (events (snd (handle_request_exception l m resp w))) = posts_of (events w)"
  by (simp add: handle_request_exception_def Let_def posts_of_print
      split: option.splits sum.splits)

lemma events_print: "events (print s w) = events w @ [Print (s @ nl)]"
  by (simp add: print_def)

lemma files_print: "files (print s w) = files w"
  by (simp add: print_def)

lemma events_append_file: "events (append_file p t w) = events w @ [Append p t]"
  by (simp add: append_file_def)

lemma new_events_eq:
  assumes "events w' = events w @ n"
  shows "new_events w w' = n"
  using assms by (simp add: new_events_def)

lemma example_file:
  "files example_world ''submission.zip'' = Some (''PK'' @ [CHR 0x03, CHR 0x04, CHR 0xFF])"
  by (simp add: example_world_def)

lemma example_file_exists: "path_exists example_world (arg_file example_args)"
  by (simp add: path_exists_def example_world_def example_args_def)

lemma upload_submission_existing:
  assumes "files w file_path = Some content"
  shows "\<exists>w2. events w2 = events w @
        [Print (sym_outbox @ '' Uploading '' @ path_name file_path @ '' (''
                           @ show_nat (length content) @ '' bytes)...'' @ nl),
         Post endpoint \<lparr>pl_api_key = key, pl_role = r, pl_file = b64encode content,
                         pl_filename = path_name file_path\<rparr>]
      \<and> files w2 = files w
      \<and> upload_submission env key endpoint r file_path w =
        (case http_post env endpoint \<lparr>pl_api_key = key, pl_role = r, pl_file = b64encode content,
                         pl_filename = path_name file_path\<rparr> of
           Inr result \<Rightarrow> (Inr result, w2)
         | Inl (RequestException m resp) \<Rightarrow> handle_request_exception (lib env) m resp w2
         | Inl e \<Rightarrow> (Inl e, w2))"
proof -
  define w2 where "w2 = send_post endpoint
      \<lparr>pl_api_key = key, pl_role = r, pl_file = b64encode content, pl_filename = path_name file_path\<rparr>
      (print (sym_outbox @ '' Uploading '' @ path_name file_path @ '' (''
                           @ show_nat (length content) @ '' bytes)...'') w)"
  have a: "events w2 = events w @
        [Print (sym_outbox @ '' Uploading '' @ path_name file_path @ '' (''
                           @ show_nat (length content) @ '' bytes)...'' @ nl),
         Post endpoint \<lparr>pl_api_key = key, pl_role = r, pl_file = b64encode content,
                         pl_filename = path_name file_path\<rparr>]"
    by (simp add: w2_def send_post_def events_print)
  have b: "files w2 = files w" by (simp add: w2_def send_post_def files_print)
  have c: "upload_submission env key endpoint r file_path w =
        (case http_post env endpoint \<lparr>pl_api_key = key, pl_role = r, pl_file = b64encode content,
                         pl_filename = path_name file_path\<rparr> of
           Inr result \<Rightarrow> (Inr result, w2)
         | Inl (RequestException m resp) \<Rightarrow> handle_request_exception (lib env) m resp w2
         | Inl e \<Rightarrow> (Inl e, w2))"
    using assms unfolding upload_submission_def w2_def Let_def by simp
  from a b c show ?thesis by blast
qed

lemma upload_main_existing:
  assumes "path_exists w (arg_file a)"
  shows "\<exists>w2. files w2 = files w \<and> (\<exists>new. events w2 = events w @ new \<and> posts_of new = []) \<and>
     upload_main env a w =
       (case try_block env a w2 of
          (Inr u, w3) \<Rightarrow> (0, w3)
        | (Inl e, w3) \<Rightarrow> (1, failure_block env e w3))"
proof -
  define w1 where "w1 = (if path_suffix (arg_file a) \<noteq> ''.zip''
                   then print (sym_warning @ ''  Warning: File does not have .zip extension: ''
                               @ arg_file a) w
                   else w)"
  define w2 where "w2 = print [] (print rule60 (print (sym_rocket @ '' Competition Submission Upload (''
                    @ py_upper (arg_role a) @ '')'') (print rule60 w1)))"
  have f: "files w2 = files w" by (simp add: w2_def w1_def files_print)
  have e: "\<exists>new. events w2 = events w @ new \<and> posts_of new = []"
    by (simp add: w2_def w1_def events_print posts_of_def)
  have m: "upload_main env a w =
       (case try_block env a w2 of
          (Inr u, w3) \<Rightarrow> (0, w3)
        | (Inl e, w3) \<Rightarrow> (1, failure_block env e w3))"
    using assms unfolding upload_main_def Let_def w2_def w1_def by simp
  from f e m show ?thesis by blast
qed

lemma try_block_upload_raises:
  assumes "fst (upload_submission env (arg_api_key a) (arg_endpoint a) (arg_role a) (arg_file a) w) = Inl e"
  shows "try_block env a w =
    (Inl e, snd (upload_submission env (arg_api_key a) (arg_endpoint a) (arg_role a) (arg_file a) w))"
proof (cases "upload_submission env (arg_api_key a) (arg_endpoint a) (arg_role a) (arg_file a) w")
  case (Pair x w1)
  with assms show ?thesis by (simp add: try_block_def)
qed

lemma failure_block_prints_error:
  "Print (''  Error: '' @ exc_str (lib env) e @ nl) \<in> set (events (failure_block env e w))"
  by (simp add: failure_block_def Let_def events_print append_file_def
      split: option.splits exc.splits)

subsection \<open>The uploader: the payload\<close>

text \<open>
  Claim C1. For the bytes of an archive file that exists, the request \<^verbatim>\<open>upload_submission\<close>
  sends carries, in its \<^verbatim>\<open>file\<close> field, the Base64 encoding of exactly those bytes, and
  decoding that field gives the bytes back, none lost and none changed.
\<close>

theorem upload_payload_base64_roundtrip:
  assumes "files w file_path = Some content"
  shows "\<exists>request.
     posts_of (events (snd (upload_submission env key endpoint r file_path w))) =
       posts_of (events w) @ [(endpoint, request)]
     \<and> pl_file request = b64encode content
     \<and> b64decode (pl_file request) = Some content"
proof -
  define request where "request =
    \<lparr>pl_api_key = key, pl_role = r, pl_file = b64encode content, pl_filename = path_name file_path\<rparr>"
  have "posts_of (events (snd (upload_submission env key endpoint r file_path w))) =
       posts_of (events w) @ [(endpoint, request)]"
    using assms
    by (simp add: upload_submission_def Let_def request_def posts_of_print posts_of_send
        posts_of_handler split: sum.splits exc.splits)
  moreover have "pl_file request = b64encode content" by (simp add: request_def)
  moreover have "b64decode (pl_file request) = Some content"
    by (simp add: request_def b64_roundtrip)
  ultimately show ?thesis by blast
qed

theorem upload_payload_base64_roundtrip_witness:
  "files example_world ''submission.zip'' = Some (''PK'' @ [CHR 0x03, CHR 0x04, CHR 0xFF])
   \<and> (\<exists>request.
     posts_of (events (snd (upload_submission (example_env (Inr logical_body)) ''secret''
        ''https://example.test/submit'' ''attacker'' ''submission.zip'' example_world))) =
       posts_of (events example_world) @ [(''https://example.test/submit'', request)]
     \<and> pl_file request = b64encode (''PK'' @ [CHR 0x03, CHR 0x04, CHR 0xFF])
     \<and> b64decode (pl_file request) = Some (''PK'' @ [CHR 0x03, CHR 0x04, CHR 0xFF]))"
proof -
  have h: "files example_world ''submission.zip'' = Some (''PK'' @ [CHR 0x03, CHR 0x04, CHR 0xFF])"
    by (simp add: example_world_def)
  show ?thesis
    using h upload_payload_base64_roundtrip [OF h] by blast
qed

subsection \<open>The uploader: a file that does not exist\<close>

text \<open>
  Claim C8. When the path given as \<^verbatim>\<open>--file\<close> does not exist, the uploader prints the
  \<^verbatim>\<open>File not found\<close> message and exits with code 1; it prints nothing else, leaves every file
  as it was (no \<^verbatim>\<open>submission_result.json\<close> is written) and sends no request.
\<close>

theorem missing_file_exits_without_upload:
  assumes "\<not> path_exists w (arg_file a)"
  shows "upload_main env a w = (1, print (sym_cross @ '' Error: File not found: '' @ arg_file a) w)
    \<and> files (snd (upload_main env a w)) = files w
    \<and> events (snd (upload_main env a w)) =
        events w @ [Print (sym_cross @ '' Error: File not found: '' @ arg_file a @ nl)]
    \<and> posts_of (events (snd (upload_main env a w))) = posts_of (events w)"
  using assms
  by (simp add: upload_main_def Let_def events_print files_print posts_of_append posts_of_def)

theorem missing_file_exits_without_upload_witness:
  "\<not> path_exists example_world (arg_file (example_args\<lparr>arg_file := ''missing.zip''\<rparr>))
   \<and> upload_main (example_env (Inr logical_body)) (example_args\<lparr>arg_file := ''missing.zip''\<rparr>)
        example_world =
       (1, print (sym_cross @ '' Error: File not found: ''
                  @ arg_file (example_args\<lparr>arg_file := ''missing.zip''\<rparr>)) example_world)
   \<and> files (snd (upload_main (example_env (Inr logical_body))
                (example_args\<lparr>arg_file := ''missing.zip''\<rparr>) example_world)) = files example_world
   \<and> events (snd (upload_main (example_env (Inr logical_body))
                (example_args\<lparr>arg_file := ''missing.zip''\<rparr>) example_world)) =
        events example_world @ [Print (sym_cross @ '' Error: File not found: ''
                  @ arg_file (example_args\<lparr>arg_file := ''missing.zip''\<rparr>) @ nl)]
   \<and> posts_of (events (snd (upload_main (example_env (Inr logical_body))
                (example_args\<lparr>arg_file := ''missing.zip''\<rparr>) example_world))) =
        posts_of (events example_world)"
proof -
  have h: "\<not> path_exists example_world (arg_file (example_args\<lparr>arg_file := ''missing.zip''\<rparr>))"
    by (simp add: path_exists_def example_world_def)
  show ?thesis
    using h missing_file_exits_without_upload [OF h, of "example_env (Inr logical_body)"] by blast
qed

subsection \<open>The uploader: failed requests\<close>

text \<open>
  The detail is not the raw text of the response. At a 404 answered with an HTML page, the
  detail is the text of the exception and the hint; the page is printed only.
\<close>

theorem invalid_json_detail_is_exception_text:
  "fst (upload_submission (example_env (Inl not_found_page)) ''secret''
          ''https://example.test/submit'' ''attacker'' ''submission.zip'' example_world) =
     Inl (SubmissionError (JStr ''API endpoint not found.'')
            (Some (''404 Client Error: Not Found for url: https://example.test/submit'' @ nl @ nl
                   @ ''Please check the submission_endpoint is correct.'')))
   \<and> fst (upload_submission (example_env (Inl not_found_page)) ''secret''
          ''https://example.test/submit'' ''attacker'' ''submission.zip'' example_world) \<noteq>
     Inl (SubmissionError (JStr ''API endpoint not found.'') (Some ''<html>Not Found</html>''))"
  by (simp add: upload_submission_def example_file example_env_def not_found_page_def
      handle_request_exception_def loads_def example_lib_def error_body_text_def
      logical_body_text_def dq_def endpoint_not_found_def nl_def Let_def)

text \<open>
  Claim C3, amended. When the request fails with a response whose body is not valid JSON,
  \<^verbatim>\<open>upload_submission\<close> raises a \<^verbatim>\<open>SubmissionError\<close> whose title is
  \<^verbatim>\<open>API endpoint not found.\<close> and whose detail is the text of the exception followed by
  an empty line and the hint to check the endpoint; the raw text of the response is
  printed, and is not the detail.
\<close>

theorem invalid_json_response_endpoint_not_found:
  assumes "files w file_path = Some content"
    and "\<forall>p. http_post env endpoint p = Inl (RequestException m (Some resp))"
    and "json_loads (lib env) (resp_text resp) = Inl msg"
  shows "fst (upload_submission env key endpoint r file_path w) =
           Inl (SubmissionError (JStr ''API endpoint not found.'')
                  (Some (m @ nl @ nl @ ''Please check the submission_endpoint is correct.'')))
    \<and> last (events (snd (upload_submission env key endpoint r file_path w))) =
           Print (''   Server response: '' @ resp_text resp @ nl)"
  using assms
  by (simp add: upload_submission_def Let_def handle_request_exception_def loads_def
      endpoint_not_found_def events_print)

theorem invalid_json_response_endpoint_not_found_witness:
  "files example_world ''submission.zip'' = Some (''PK'' @ [CHR 0x03, CHR 0x04, CHR 0xFF])
   \<and> (\<forall>p. http_post (example_env (Inl not_found_page)) ''https://example.test/submit'' p =
          Inl (RequestException ''404 Client Error: Not Found for url: https://example.test/submit''
                 (Some \<lparr>resp_text = ''<html>Not Found</html>''\<rparr>)))
   \<and> json_loads (lib (example_env (Inl not_found_page)))
         (resp_text \<lparr>resp_text = ''<html>Not Found</html>''\<rparr>) =
       Inl ''Expecting value: line 1 column 1 (char 0)''
   \<and> fst (upload_submission (example_env (Inl not_found_page)) ''secret''
            ''https://example.test/submit'' ''attacker'' ''submission.zip'' example_world) =
           Inl (SubmissionError (JStr ''API endpoint not found.'')
                  (Some (''404 Client Error: Not Found for url: https://example.test/submit'' @ nl @ nl
                         @ ''Please check the submission_endpoint is correct.'')))
   \<and> last (events (snd (upload_submission (example_env (Inl not_found_page)) ''secret''
            ''https://example.test/submit'' ''attacker'' ''submission.zip'' example_world))) =
           Print (''   Server response: '' @ resp_text \<lparr>resp_text = ''<html>Not Found</html>''\<rparr> @ nl)"
proof -
  have h1: "files example_world ''submission.zip'' = Some (''PK'' @ [CHR 0x03, CHR 0x04, CHR 0xFF])"
    by (rule example_file)
  have h2: "\<forall>p. http_post (example_env (Inl not_found_page)) ''https://example.test/submit'' p =
          Inl (RequestException ''404 Client Error: Not Found for url: https://example.test/submit''
                 (Some \<lparr>resp_text = ''<html>Not Found</html>''\<rparr>))"
    by (simp add: example_env_def not_found_page_def)
  have h3: "json_loads (lib (example_env (Inl not_found_page)))
         (resp_text \<lparr>resp_text = ''<html>Not Found</html>''\<rparr>) =
       Inl ''Expecting value: line 1 column 1 (char 0)''"
    by (simp add: example_env_def example_lib_def error_body_text_def logical_body_text_def)
  show ?thesis
    using h1 h2 h3 invalid_json_response_endpoint_not_found [OF h1 h2 h3, of "''secret''" "''attacker''"]
    by blast
qed

text \<open>
  Claim C6. When the request fails with a response whose body decodes to a JSON object
  with an \<^verbatim>\<open>error\<close> field, the uploader fails with that field as the title of the error and
  the text of the exception as its detail, prints the title after \<^verbatim>\<open>Error:\<close>, and exits
  with code 1.
\<close>

theorem server_error_message_is_title:
  assumes "path_exists w (arg_file a)"
    and "\<forall>p. http_post env (arg_endpoint a) p = Inl (RequestException m (Some resp))"
    and "json_loads (lib env) (resp_text resp) = Inr (JObj kvs)"
    and "map_of kvs ''error'' = Some v"
  shows "fst (upload_submission env (arg_api_key a) (arg_endpoint a) (arg_role a) (arg_file a) w) =
           Inl (SubmissionError v (Some m))
    \<and> fst (upload_main env a w) = 1
    \<and> Print (''  Error: '' @ py_str (lib env) v @ nl) \<in> set (events (snd (upload_main env a w)))"
proof -
  obtain content where c: "files w (arg_file a) = Some content"
    using assms(1) by (auto simp: path_exists_def)
  have up: "fst (upload_submission env (arg_api_key a) (arg_endpoint a) (arg_role a) (arg_file a) w') =
           Inl (SubmissionError v (Some m))" if "files w' (arg_file a) = Some content" for w'
    using assms(2-4) that
    by (simp add: upload_submission_def Let_def handle_request_exception_def loads_def py_get_def)
  obtain w2 where w2: "files w2 = files w"
    and main: "upload_main env a w =
       (case try_block env a w2 of
          (Inr u, w3) \<Rightarrow> (0, w3)
        | (Inl e, w3) \<Rightarrow> (1, failure_block env e w3))"
    using upload_main_existing [OF assms(1)] by blast
  have "files w2 (arg_file a) = Some content" using c w2 by simp
  note tb = try_block_upload_raises [OF up [OF this]]
  have str: "exc_str (lib env) (SubmissionError v (Some m)) = py_str (lib env) v"
    by (simp add: exc_str_def)
  show ?thesis
    using up [OF c] failure_block_prints_error [of env "SubmissionError v (Some m)"]
    unfolding main tb str by simp
qed

theorem server_error_message_is_title_witness:
  "path_exists example_world (arg_file example_args)
   \<and> (\<forall>p. http_post (example_env (Inl bad_request)) (arg_endpoint example_args) p =
          Inl (RequestException ''400 Client Error: Bad Request for url: https://example.test/submit''
                 (Some \<lparr>resp_text = error_body_text\<rparr>)))
   \<and> json_loads (lib (example_env (Inl bad_request))) (resp_text \<lparr>resp_text = error_body_text\<rparr>) =
       Inr (JObj [(''error'', JStr ''invalid role'')])
   \<and> map_of [(''error'', JStr ''invalid role'')] ''error'' = Some (JStr ''invalid role'')
   \<and> fst (upload_submission (example_env (Inl bad_request)) (arg_api_key example_args)
            (arg_endpoint example_args) (arg_role example_args) (arg_file example_args) example_world) =
       Inl (SubmissionError (JStr ''invalid role'')
              (Some ''400 Client Error: Bad Request for url: https://example.test/submit''))
   \<and> fst (upload_main (example_env (Inl bad_request)) example_args example_world) = 1
   \<and> Print (''  Error: '' @ py_str (lib (example_env (Inl bad_request))) (JStr ''invalid role'') @ nl)
       \<in> set (events (snd (upload_main (example_env (Inl bad_request)) example_args example_world)))"
proof -
  have h2: "\<forall>p. http_post (example_env (Inl bad_request)) (arg_endpoint example_args) p =
          Inl (RequestException ''400 Client Error: Bad Request for url: https://example.test/submit''
                 (Some \<lparr>resp_text = error_body_text\<rparr>))"
    by (simp add: example_env_def bad_request_def)
  have h3: "json_loads (lib (example_env (Inl bad_request))) (resp_text \<lparr>resp_text = error_body_text\<rparr>) =
       Inr (JObj [(''error'', JStr ''invalid role'')])"
    by (simp add: example_env_def example_lib_def error_body_def)
  have h4: "map_of [(''error'', JStr ''invalid role'')] ''error'' = Some (JStr ''invalid role'')"
    by simp
  show ?thesis
    using example_file_exists h2 h3 h4
      server_error_message_is_title [OF example_file_exists h2 h3 h4]
    by blast
qed

subsection \<open>The uploader: the logical body\<close>

text \<open>
  Claim C9. The response is normalized in three shapes: a string at the top that decodes
  to a mapping is handled as that mapping; a mapping whose \<^verbatim>\<open>body\<close> is a string has that
  string decoded as the logical body; a mapping whose \<^verbatim>\<open>body\<close> is itself a mapping has
  that mapping as the logical body, with no decoding. A mapping with no \<^verbatim>\<open>body\<close> is the
  logical body as it is.
\<close>

theorem response_shapes_normalized:
  "(json_loads l s = Inr (JObj decoded) \<longrightarrow>
      normalize_result l (JStr s) = normalize_result l (JObj decoded))
   \<and> (map_of wrapped ''body'' = Some (JStr t) \<longrightarrow> json_loads l t = Inr b \<longrightarrow>
        normalize_result l (JObj wrapped) = Inr b)
   \<and> (map_of nested ''body'' = Some (JObj inner) \<longrightarrow>
        normalize_result l (JObj nested) = Inr (JObj inner))
   \<and> (map_of direct ''body'' = None \<longrightarrow> normalize_result l (JObj direct) = Inr (JObj direct))"
  by (simp add: normalize_result_def loads_def py_contains_def py_getitem_def)

theorem response_shapes_normalized_witness:
  "(json_loads example_lib logical_body_text =
      Inr (JObj [(''team_name'', JStr ''Foo''), (''submission_number'', JInt 3)])
    \<and> normalize_result example_lib (JStr logical_body_text) =
      normalize_result example_lib (JObj [(''team_name'', JStr ''Foo''), (''submission_number'', JInt 3)]))
   \<and> (map_of [(''body'', JStr logical_body_text)] ''body'' = Some (JStr logical_body_text)
      \<and> json_loads example_lib logical_body_text = Inr logical_body
      \<and> normalize_result example_lib (JObj [(''body'', JStr logical_body_text)]) = Inr logical_body)
   \<and> (map_of [(''body'', JObj [(''team_name'', JStr ''Foo'')])] ''body'' =
        Some (JObj [(''team_name'', JStr ''Foo'')])
      \<and> normalize_result example_lib (JObj [(''body'', JObj [(''team_name'', JStr ''Foo'')])]) =
        Inr (JObj [(''team_name'', JStr ''Foo'')]))
   \<and> (map_of [(''team_name'', JStr ''Foo'')] ''body'' = None
      \<and> normalize_result example_lib (JObj [(''team_name'', JStr ''Foo'')]) =
        Inr (JObj [(''team_name'', JStr ''Foo'')]))"
proof -
  have h1: "json_loads example_lib logical_body_text =
      Inr (JObj [(''team_name'', JStr ''Foo''), (''submission_number'', JInt 3)])"
    by (simp add: example_lib_def logical_body_def error_body_text_def logical_body_text_def dq_def)
  have h2: "map_of [(''body'', JStr logical_body_text)] ''body'' = Some (JStr logical_body_text)"
    by simp
  have h2': "json_loads example_lib logical_body_text = Inr logical_body"
    using h1 by (simp add: logical_body_def)
  have h3: "map_of [(''body'', JObj [(''team_name'', JStr ''Foo'')])] ''body'' =
        Some (JObj [(''team_name'', JStr ''Foo'')])"
    by simp
  have h4: "map_of [(''team_name'', JStr ''Foo'')] ''body'' = None"
    by simp
  show ?thesis
    using h1 h2 h2' h3 h4
      response_shapes_normalized [of example_lib logical_body_text
        "[(''team_name'', JStr ''Foo''), (''submission_number'', JInt 3)]"
        "[(''body'', JStr logical_body_text)]" logical_body_text logical_body
        "[(''body'', JObj [(''team_name'', JStr ''Foo'')])]" "[(''team_name'', JStr ''Foo'')]"
        "[(''team_name'', JStr ''Foo'')]"]
    by blast
qed

subsection \<open>The uploader: exit code of a successful upload\<close>






lemma run_steps_append:
  "run_steps (xs @ ys) w =
     (case run_steps xs w of (Inl e, w') \<Rightarrow> (Inl e, w') | (Inr u, w') \<Rightarrow> run_steps ys w')"
proof (induction xs arbitrary: w)
  case Nil
  show ?case by simp
next
  case (Cons s xs)
  show ?case by (cases "s w") (auto simp add: Cons.IH split: sum.splits)
qed











lemma run_steps_keeps:
  assumes "list_all (\<lambda>s. \<forall>w. path_exists w fl \<longrightarrow> path_exists (snd (s w)) fl) ss"
    and "path_exists w fl"
  shows "path_exists (snd (run_steps ss w)) fl"
  using assms
proof (induction ss arbitrary: w)
  case Nil
  then show ?case by simp
next
  case (Cons s ss)
  obtain x w1 where sw: "s w = (x, w1)" by (cases "s w")
  from Cons.prems have "path_exists (snd (s w)) fl" by simp
  with sw have k: "path_exists w1 fl" by simp
  show ?case
  proof (cases x)
    case (Inl e)
    with sw k show ?thesis by simp
  next
    case (Inr u)
    from Cons.prems have "list_all (\<lambda>s. \<forall>w. path_exists w fl \<longrightarrow> path_exists (snd (s w)) fl) ss"
      by simp
    from Cons.IH [OF this k] sw Inr show ?thesis by simp
  qed
qed

lemma run_steps_last_fails:
  assumes "list_all (\<lambda>s. \<forall>w. path_exists w fl \<longrightarrow> path_exists (snd (s w)) fl) pre"
    and "path_exists w fl"
    and "\<And>w. path_exists w fl \<Longrightarrow> fst (l w) \<noteq> Inr ()"
  shows "fst (run_steps (pre @ [l]) w) \<noteq> Inr ()"
proof (cases "run_steps pre w")
  case (Pair x w1)
  show ?thesis
  proof (cases x)
    case (Inl e)
    with Pair show ?thesis by (simp add: run_steps_append)
  next
    case (Inr u)
    have "path_exists w1 fl"
      using run_steps_keeps [OF assms(1,2)] Pair by simp
    from assms(3) [OF this] have "fst (l w1) \<noteq> Inr ()" .
    then show ?thesis
      using Pair Inr by (cases "l w1") (auto simp add: run_steps_append split: sum.splits)
  qed
qed

lemma keeps_print_stmt: "path_exists w fl \<longrightarrow> path_exists (snd (print_stmt x w)) fl"
  by (cases x) (simp_all add: print_stmt_def files_print path_exists_def)

lemma keeps_write_stmt: "path_exists w fl \<longrightarrow> path_exists (snd (write_stmt p x w)) fl"
  by (cases x) (simp_all add: write_stmt_def append_file_def path_exists_def)

lemma keeps_open_append: "path_exists w fl \<longrightarrow> path_exists (snd (open_append p w)) fl"
  by (simp add: open_append_def path_exists_def)

lemma keeps_print_info_steps:
  "list_all (\<lambda>s. \<forall>w. path_exists w fl \<longrightarrow> path_exists (snd (s w)) fl) (print_info_steps l body)"
  by (simp add: print_info_steps_def keeps_print_stmt)

lemma keeps_output_steps:
  "list_all (\<lambda>s. \<forall>w. path_exists w fl \<longrightarrow> path_exists (snd (s w)) fl) (output_steps env body)"
  by (simp add: output_steps_def keeps_write_stmt keeps_open_append split: option.splits)

lemma summary_steps_end:
  assumes "getenv env ''GITHUB_STEP_SUMMARY'' = Some ps" "ps \<noteq> []"
  shows "summary_steps env a (JObj kvs) =
           butlast (summary_steps env a (JObj kvs)) @ [file_list_stmt env a ps]
    \<and> list_all (\<lambda>s. \<forall>w. path_exists w fl \<longrightarrow> path_exists (snd (s w)) fl)
         (butlast (summary_steps env a (JObj kvs)))"
  using assms
  by (simp add: summary_steps_def py_get_def Let_def keeps_write_stmt keeps_open_append)

lemma unreadable_file_list_raises:
  assumes "arg_file_list a = Some fl" "fl \<noteq> []" "\<forall>bytes. \<exists>m. read_text env fl bytes = Inl m"
    and "path_exists w fl"
  shows "fst (file_list_stmt env a p w) \<noteq> Inr ()"
proof -
  from assms(3) obtain m where "read_text env fl (old_content w fl) = Inl m" by blast
  with assms(1,2,4) show ?thesis by (simp add: file_list_stmt_def)
qed

text \<open>
  Reading the file list is inside the \<^verbatim>\<open>try\<close>: when the list exists and reading it
  raises (bytes that do not decode, a directory), a successful upload with a mapping as
  its logical body still ends in the handler, with code 1.
\<close>

lemma unreadable_file_list_exits_one:
  assumes "path_exists w (arg_file a)"
    and "\<forall>p. http_post env (arg_endpoint a) p = Inr result"
    and "normalize_result (lib env) result = Inr (JObj kvs)"
    and "getenv env ''GITHUB_STEP_SUMMARY'' = Some ps" "ps \<noteq> []"
    and "arg_file_list a = Some fl" "fl \<noteq> []" "path_exists w fl"
    and "\<forall>bytes. \<exists>m. read_text env fl bytes = Inl m"
  shows "fst (upload_main env a w) = 1"
proof -
  obtain w2 where w2: "files w2 = files w"
    and main: "upload_main env a w =
       (case try_block env a w2 of
          (Inr u, w3) \<Rightarrow> (0, w3)
        | (Inl e, w3) \<Rightarrow> (1, failure_block env e w3))"
    using upload_main_existing [OF assms(1)] by blast
  obtain content where c: "files w2 (arg_file a) = Some content"
    using assms(1) w2 by (auto simp: path_exists_def)
  from upload_submission_existing [OF c, of "arg_endpoint a" "arg_api_key a" "arg_role a" env]
  obtain w1 where f1: "files w1 = files w2"
    and up: "upload_submission env (arg_api_key a) (arg_endpoint a) (arg_role a) (arg_file a) w2
      = (Inr result, w1)"
    using assms(2) by auto
  define wr where "wr = write_file ''submission_result.json'' (json_dumps (lib env) result) w1"
  have pr: "path_exists wr fl"
    using assms(8) w2 f1 by (simp add: wr_def write_file_def path_exists_def)
  define pre where "pre = (if arg_print_info a then print_info_steps (lib env) (JObj kvs) else [])
      @ output_steps env (JObj kvs) @ butlast (summary_steps env a (JObj kvs))"
  note se = summary_steps_end [OF assms(4,5), of a kvs fl]
  have all: "(if arg_print_info a then print_info_steps (lib env) (JObj kvs) else [])
      @ output_steps env (JObj kvs) @ summary_steps env a (JObj kvs) = pre @ [file_list_stmt env a ps]"
    unfolding pre_def using se by simp
  have k: "list_all (\<lambda>s. \<forall>w. path_exists w fl \<longrightarrow> path_exists (snd (s w)) fl) pre"
    unfolding pre_def using se by (simp add: keeps_print_info_steps keeps_output_steps)
  have "fst (run_steps (pre @ [file_list_stmt env a ps]) wr) \<noteq> Inr ()"
    using k pr
  proof (rule run_steps_last_fails)
    show "fst (file_list_stmt env a ps w) \<noteq> Inr ()" if "path_exists w fl" for w
      using assms(6,7,9) that by (rule unreadable_file_list_raises)
  qed
  then have "fst (try_block env a w2) \<noteq> Inr ()"
    unfolding try_block_def up wr_def Let_def using assms(3) all by simp
  then show ?thesis
    unfolding main by (cases "try_block env a w2") (auto split: sum.splits)
qed

lemma latin1_file_list_exits_one:
  "role_is_text []
   \<and> fst (upload_main (example_env (Inr (JObj [])))
            (example_args\<lparr>arg_file_list := Some ''latin1_list.txt''\<rparr>) listed_world) = 1"
proof -
  have "fst (upload_main (example_env (Inr (JObj [])))
            (example_args\<lparr>arg_file_list := Some ''latin1_list.txt''\<rparr>) listed_world) = 1"
  proof (rule unreadable_file_list_exits_one)
    show "path_exists listed_world (arg_file (example_args\<lparr>arg_file_list := Some ''latin1_list.txt''\<rparr>))"
      by (simp add: path_exists_def listed_world_def example_world_def example_args_def)
    show "\<forall>p. http_post (example_env (Inr (JObj [])))
        (arg_endpoint (example_args\<lparr>arg_file_list := Some ''latin1_list.txt''\<rparr>)) p = Inr (JObj [])"
      by (simp add: example_env_def)
    show "normalize_result (lib (example_env (Inr (JObj [])))) (JObj []) = Inr (JObj [])"
      by (simp add: normalize_result_def py_contains_def)
    show "getenv (example_env (Inr (JObj []))) ''GITHUB_STEP_SUMMARY'' = Some ''gh_summary.md''"
      by (simp add: example_env_def)
    show "''gh_summary.md'' \<noteq> []" by simp
    show "arg_file_list (example_args\<lparr>arg_file_list := Some ''latin1_list.txt''\<rparr>) = Some ''latin1_list.txt''"
      by simp
    show "''latin1_list.txt'' \<noteq> []" by simp
    show "path_exists listed_world ''latin1_list.txt''"
      by (simp add: path_exists_def listed_world_def)
    show "\<forall>bytes. \<exists>m. read_text (example_env (Inr (JObj []))) ''latin1_list.txt'' bytes = Inl m"
      by (simp add: example_env_def)
  qed
  then show ?thesis by (simp add: role_is_text_def)
qed

subsection \<open>The uploader: the output files of the pipeline\<close>

lemma run_steps_grows:
  assumes "list_all (\<lambda>s. \<forall>w. \<exists>new. events (snd (s w)) = events w @ new) ss"
  shows "\<exists>new. events (snd (run_steps ss w)) = events w @ new"
  using assms
proof (induction ss arbitrary: w)
  case Nil
  show ?case by simp
next
  case (Cons s ss)
  obtain x w1 where sw: "s w = (x, w1)" by (cases "s w")
  from Cons.prems have "\<forall>w. \<exists>new. events (snd (s w)) = events w @ new" by simp
  then have "\<exists>new. events (snd (s w)) = events w @ new" by blast
  then obtain n1 where n1: "events w1 = events w @ n1"
    using sw by auto
  show ?case
  proof (cases x)
    case (Inl e)
    with sw n1 show ?thesis by simp
  next
    case (Inr u)
    from Cons.prems have "list_all (\<lambda>s. \<forall>w. \<exists>new. events (snd (s w)) = events w @ new) ss"
      by simp
    from Cons.IH [OF this, of w1] obtain n2 where "events (snd (run_steps ss w1)) = events w1 @ n2"
      by blast
    with sw n1 Inr show ?thesis by simp
  qed
qed

lemma grows_print_stmt: "\<exists>new. events (snd (print_stmt x w)) = events w @ new"
  by (cases x) (simp_all add: print_stmt_def events_print)

lemma grows_write_stmt: "\<exists>new. events (snd (write_stmt p x w)) = events w @ new"
  by (cases x) (simp_all add: write_stmt_def events_append_file)

lemma grows_open_append: "\<exists>new. events (snd (open_append p w)) = events w @ new"
  by (simp add: open_append_def)

lemma grows_raise_stmt: "\<exists>new. events (snd (raise_stmt e w)) = events w @ new"
  by (simp add: raise_stmt_def)

lemma grows_file_list_stmt: "\<exists>new. events (snd (file_list_stmt env a p w)) = events w @ new"
proof (cases "arg_file_list a")
  case None
  then show ?thesis by (simp add: file_list_stmt_def)
next
  case (Some fl)
  have steps: "\<exists>new. events (snd (run_steps ([write_stmt p x, write_stmt p y]
       @ map (\<lambda>f. write_stmt p (g f)) names @ [write_stmt p z]) w)) = events w @ new"
    for x y z names and g :: "string \<Rightarrow> exc + string"
    by (rule run_steps_grows) (simp add: grows_write_stmt list_all_iff)
  show ?thesis
  proof (cases "read_text env fl (old_content w fl)")
    case (Inl m)
    then show ?thesis by (simp add: file_list_stmt_def Some)
  next
    case (Inr content)
    show ?thesis
      unfolding file_list_stmt_def Some Let_def option.case Inr sum.case
      using steps by (simp split: if_splits)
  qed
qed

lemma grows_print_info_steps:
  "list_all (\<lambda>s. \<forall>w. \<exists>new. events (snd (s w)) = events w @ new) (print_info_steps l body)"
  by (simp add: print_info_steps_def grows_print_stmt)

lemma grows_output_steps:
  "list_all (\<lambda>s. \<forall>w. \<exists>new. events (snd (s w)) = events w @ new) (output_steps env body)"
  by (simp add: output_steps_def grows_write_stmt grows_open_append split: option.splits)

lemma grows_summary_steps:
  "list_all (\<lambda>s. \<forall>w. \<exists>new. events (snd (s w)) = events w @ new) (summary_steps env a body)"
  by (simp add: summary_steps_def Let_def grows_write_stmt grows_open_append grows_raise_stmt
      grows_file_list_stmt split: option.splits sum.splits)

lemma grows_handler:
  "\<exists>new. events (snd (handle_request_exception l m resp w)) = events w @ new"
  by (simp add: handle_request_exception_def Let_def events_print split: option.splits sum.splits)

lemma grows_upload_submission:
  "\<exists>new. events (snd (upload_submission env key endpoint r file_path w)) = events w @ new"
proof (cases "files w file_path")
  case None
  then show ?thesis by (simp add: upload_submission_def)
next
  case (Some content)
  from upload_submission_existing [OF Some, of endpoint key r env]
  obtain w2 n2 where e2: "events w2 = events w @ n2"
    and up: "upload_submission env key endpoint r file_path w =
        (case http_post env endpoint \<lparr>pl_api_key = key, pl_role = r, pl_file = b64encode content,
                         pl_filename = path_name file_path\<rparr> of
           Inr result \<Rightarrow> (Inr result, w2)
         | Inl (RequestException m resp) \<Rightarrow> handle_request_exception (lib env) m resp w2
         | Inl e \<Rightarrow> (Inl e, w2))"
    by blast
  have h: "\<exists>new. events (snd (handle_request_exception (lib env) m resp w2)) = events w @ new" for m resp
    using grows_handler [of "lib env" m resp w2] e2 by auto
  show ?thesis
    unfolding up using e2 h by (simp split: sum.splits exc.splits)
qed

lemma grows_try_block: "\<exists>new. events (snd (try_block env a w)) = events w @ new"
proof -
  obtain x w1 where up: "upload_submission env (arg_api_key a) (arg_endpoint a) (arg_role a) (arg_file a) w = (x, w1)"
    by (cases "upload_submission env (arg_api_key a) (arg_endpoint a) (arg_role a) (arg_file a) w")
  obtain n1 where n1: "events w1 = events w @ n1"
    using grows_upload_submission [of env "arg_api_key a" "arg_endpoint a" "arg_role a" "arg_file a" w] up
    by auto
  show ?thesis
  proof (cases x)
    case (Inl e)
    with up n1 show ?thesis by (simp add: try_block_def)
  next
    case (Inr result)
    define w2 where "w2 = write_file ''submission_result.json'' (json_dumps (lib env) result) w1"
    have n2: "events w2 = events w @ (n1 @ [Write ''submission_result.json'' (json_dumps (lib env) result)])"
      by (simp add: w2_def write_file_def n1)
    have tb: "try_block env a w =
       (case normalize_result (lib env) result of
             Inl e \<Rightarrow> (Inl e, w2)
           | Inr body \<Rightarrow>
               run_steps
                 ((if arg_print_info a then print_info_steps (lib env) body else [])
                  @ output_steps env body
                  @ summary_steps env a body) w2)"
      unfolding try_block_def up Inr w2_def Let_def by simp
    show ?thesis
    proof (cases "normalize_result (lib env) result")
      case (Inl e)
      with tb n2 show ?thesis by simp
    next
      case (Inr body)
      have "list_all (\<lambda>s. \<forall>w. \<exists>new. events (snd (s w)) = events w @ new)
              ((if arg_print_info a then print_info_steps (lib env) body else [])
                  @ output_steps env body @ summary_steps env a body)"
        by (simp add: grows_print_info_steps grows_output_steps grows_summary_steps)
      from run_steps_grows [OF this, of w2] n2 show ?thesis
        unfolding tb Inr by auto
    qed
  qed
qed

lemma failure_block_appends:
  assumes "getenv env ''GITHUB_OUTPUT'' = Some po" "po \<noteq> []"
    and "getenv env ''GITHUB_STEP_SUMMARY'' = Some ps" "ps \<noteq> []"
  shows "\<exists>new. events (failure_block env e w) = events w @ new
    \<and> Append po (''status=failure'' @ nl) \<in> set new
    \<and> Append ps (''## '' @ sym_cross @ '' Submission Failed'' @ nl @ nl) \<in> set new"
  using assms
  by (simp add: failure_block_def Let_def events_print events_append_file split: exc.splits)

lemma run_steps_split:
  assumes "run_steps (xs @ ys) w = (Inr (), w')"
  shows "\<exists>w1. run_steps xs w = (Inr (), w1) \<and> run_steps ys w1 = (Inr (), w')"
proof (cases "run_steps xs w")
  case (Pair x w1)
  with assms show ?thesis by (cases x) (simp_all add: run_steps_append)
qed

lemma run_steps_after_write:
  assumes "run_steps (open_append p # write_stmt p (lit t) # rest) w = (Inr (), w')"
    and "list_all (\<lambda>s. \<forall>w. \<exists>new. events (snd (s w)) = events w @ new) rest"
  shows "\<exists>new. events w' = events w @ new \<and> Append p t \<in> set new"
proof -
  define wb where "wb = append_file p t (w\<lparr>files := (files w)(p \<mapsto> old_content w p)\<rparr>)"
  have eb: "events wb = events w @ [Append p t]"
    by (simp add: wb_def events_append_file)
  have "run_steps rest wb = (Inr (), w')"
    using assms(1) by (simp add: open_append_def write_stmt_def lit_def wb_def)
  with run_steps_grows [OF assms(2), of wb] obtain n where "events w' = events wb @ n"
    by auto
  with eb have "events w' = events w @ (Append p t # n)" by simp
  then show ?thesis by (intro exI [of _ "Append p t # n"]) simp
qed

lemma output_steps_appends:
  assumes "getenv env ''GITHUB_OUTPUT'' = Some po" "po \<noteq> []"
    and "run_steps (output_steps env body) w = (Inr (), w')"
  shows "\<exists>new. events w' = events w @ new \<and> Append po (''status=success'' @ nl) \<in> set new"
proof (rule run_steps_after_write)
  show "run_steps (open_append po # write_stmt po (lit (''status=success'' @ nl)) #
        [write_stmt po (fstring [lit ''submission_number='',
                                     field (lib env) body ''submission_number'' ''Unknown'',
                                     lit nl]),
         write_stmt po (fstring [lit ''message='',
                                     field (lib env) body ''message'' ''Submission successful'',
                                     lit nl])]) w = (Inr (), w')"
    using assms unfolding output_steps_def by simp
  show "list_all (\<lambda>s. \<forall>w. \<exists>new. events (snd (s w)) = events w @ new)
        [write_stmt po (fstring [lit ''submission_number='',
                                     field (lib env) body ''submission_number'' ''Unknown'',
                                     lit nl]),
         write_stmt po (fstring [lit ''message='',
                                     field (lib env) body ''message'' ''Submission successful'',
                                     lit nl])]"
    by (simp add: grows_write_stmt)
qed

lemma summary_steps_appends:
  assumes "getenv env ''GITHUB_STEP_SUMMARY'' = Some ps" "ps \<noteq> []"
    and "run_steps (summary_steps env a body) w = (Inr (), w')"
  shows "\<exists>new. events w' = events w @ new
     \<and> (Append ps (''## '' @ sym_red @ '' Submission Successful!'' @ nl @ nl) \<in> set new
        \<or> Append ps (''## '' @ sym_blue @ '' Submission Successful!'' @ nl @ nl) \<in> set new)"
proof (cases "py_get body ''role'' (JStr ''unknown'')")
  case (Inl e)
  with assms show ?thesis by (simp add: summary_steps_def raise_stmt_def)
next
  case (Inr role_value)
  define emoji where "emoji = (if role_value = JStr ''attacker'' then sym_red else sym_blue)"
  have "\<exists>rest. summary_steps env a body =
      open_append ps # write_stmt ps (lit (''## '' @ emoji @ '' Submission Successful!'' @ nl @ nl)) # rest
      \<and> list_all (\<lambda>s. \<forall>w. \<exists>new. events (snd (s w)) = events w @ new) rest"
    using assms(1,2) unfolding summary_steps_def Inr emoji_def Let_def
    by (simp add: grows_write_stmt grows_file_list_stmt)
  then obtain rest where r: "summary_steps env a body =
      open_append ps # write_stmt ps (lit (''## '' @ emoji @ '' Submission Successful!'' @ nl @ nl)) # rest"
    and g: "list_all (\<lambda>s. \<forall>w. \<exists>new. events (snd (s w)) = events w @ new) rest"
    by blast
  from run_steps_after_write [OF assms(3) [unfolded r] g]
  show ?thesis unfolding emoji_def by (auto split: if_splits)
qed

lemma try_block_success:
  assumes "try_block env a w = (Inr (), w')"
  shows "\<exists>w1 body. (\<exists>n. events w1 = events w @ n)
     \<and> run_steps ((if arg_print_info a then print_info_steps (lib env) body else [])
                  @ output_steps env body @ summary_steps env a body) w1 = (Inr (), w')"
proof -
  obtain x w1 where up: "upload_submission env (arg_api_key a) (arg_endpoint a) (arg_role a) (arg_file a) w = (x, w1)"
    by (cases "upload_submission env (arg_api_key a) (arg_endpoint a) (arg_role a) (arg_file a) w")
  obtain n1 where n1: "events w1 = events w @ n1"
    using grows_upload_submission [of env "arg_api_key a" "arg_endpoint a" "arg_role a" "arg_file a" w] up
    by auto
  show ?thesis
  proof (cases x)
    case (Inl e)
    with up assms show ?thesis by (simp add: try_block_def)
  next
    case (Inr result)
    define w2 where "w2 = write_file ''submission_result.json'' (json_dumps (lib env) result) w1"
    have n2: "events w2 = events w @ (n1 @ [Write ''submission_result.json'' (json_dumps (lib env) result)])"
      by (simp add: w2_def write_file_def n1)
    have tb: "try_block env a w =
       (case normalize_result (lib env) result of
             Inl e \<Rightarrow> (Inl e, w2)
           | Inr body \<Rightarrow>
               run_steps
                 ((if arg_print_info a then print_info_steps (lib env) body else [])
                  @ output_steps env body
                  @ summary_steps env a body) w2)"
      unfolding try_block_def up Inr w2_def Let_def by simp
    show ?thesis
    proof (cases "normalize_result (lib env) result")
      case (Inl e)
      with tb assms show ?thesis by simp
    next
      case (Inr body)
      with tb assms n2 show ?thesis by auto
    qed
  qed
qed

text \<open>
  The check of lines 112 to 114 leaves before the \<^verbatim>\<open>try\<close>: with both environment
  variables set and a file that does not exist, the run prints one line and exits with
  code 1, and neither output file is written.
\<close>

theorem missing_file_appends_nothing:
  "getenv (example_env (Inr logical_body)) ''GITHUB_OUTPUT'' = Some ''gh_output.txt''
   \<and> getenv (example_env (Inr logical_body)) ''GITHUB_STEP_SUMMARY'' = Some ''gh_summary.md''
   \<and> fst (upload_main (example_env (Inr logical_body))
             (example_args\<lparr>arg_file := ''missing.zip''\<rparr>) example_world) = 1
   \<and> new_events example_world
        (snd (upload_main (example_env (Inr logical_body))
                (example_args\<lparr>arg_file := ''missing.zip''\<rparr>) example_world)) =
      [Print (sym_cross @ '' Error: File not found: missing.zip'' @ nl)]
   \<and> files (snd (upload_main (example_env (Inr logical_body))
                (example_args\<lparr>arg_file := ''missing.zip''\<rparr>) example_world))
        ''gh_output.txt'' = None
   \<and> files (snd (upload_main (example_env (Inr logical_body))
                (example_args\<lparr>arg_file := ''missing.zip''\<rparr>) example_world))
        ''gh_summary.md'' = None"
  by (simp add: upload_main_def path_exists_def example_world_def example_args_def example_env_def
      new_events_def print_def Let_def)

text \<open>
  Claim C4, amended. When the file given as \<^verbatim>\<open>--file\<close> exists and the two environment
  variables name output files, every run appends a status line to the \<^verbatim>\<open>GITHUB_OUTPUT\<close>
  file and a summary heading to the \<^verbatim>\<open>GITHUB_STEP_SUMMARY\<close> file: the lines of success
  when it exits with 0, the lines of failure when it exits with 1.
\<close>

theorem outputs_appended_when_file_exists:
  assumes "path_exists w (arg_file a)"
    and "getenv env ''GITHUB_OUTPUT'' = Some po" "po \<noteq> []"
    and "getenv env ''GITHUB_STEP_SUMMARY'' = Some ps" "ps \<noteq> []"
  shows "events (snd (upload_main env a w)) = events w @ new_events w (snd (upload_main env a w))
    \<and> (if fst (upload_main env a w) = 0
        then Append po (''status=success'' @ nl) \<in> set (new_events w (snd (upload_main env a w)))
           \<and> (Append ps (''## '' @ sym_red @ '' Submission Successful!'' @ nl @ nl)
                 \<in> set (new_events w (snd (upload_main env a w)))
              \<or> Append ps (''## '' @ sym_blue @ '' Submission Successful!'' @ nl @ nl)
                 \<in> set (new_events w (snd (upload_main env a w))))
        else fst (upload_main env a w) = 1
           \<and> Append po (''status=failure'' @ nl) \<in> set (new_events w (snd (upload_main env a w)))
           \<and> Append ps (''## '' @ sym_cross @ '' Submission Failed'' @ nl @ nl)
                 \<in> set (new_events w (snd (upload_main env a w))))"
proof -
  obtain w2 n0 where n0: "events w2 = events w @ n0"
    and main: "upload_main env a w =
       (case try_block env a w2 of
          (Inr u, w3) \<Rightarrow> (0, w3)
        | (Inl e, w3) \<Rightarrow> (1, failure_block env e w3))"
    using upload_main_existing [OF assms(1), of env] by blast
  obtain x w3 where tb: "try_block env a w2 = (x, w3)" by (cases "try_block env a w2")
  show ?thesis
  proof (cases x)
    case (Inl e)
    obtain n1 where n1: "events w3 = events w2 @ n1"
      using grows_try_block [of env a w2] tb by auto
    obtain n2 where n2: "events (failure_block env e w3) = events w3 @ n2"
      and m: "Append po (''status=failure'' @ nl) \<in> set n2"
        "Append ps (''## '' @ sym_cross @ '' Submission Failed'' @ nl @ nl) \<in> set n2"
      using failure_block_appends [OF assms(2-5), of e w3] by blast
    have r: "upload_main env a w = (1, failure_block env e w3)"
      unfolding main tb Inl by simp
    have ev: "events (failure_block env e w3) = events w @ (n0 @ n1 @ n2)"
      by (simp add: n0 n1 n2)
    show ?thesis
      unfolding r using m by (simp add: new_events_eq [OF ev] ev)
  next
    case (Inr u)
    have r: "upload_main env a w = (0, w3)"
      unfolding main tb Inr by simp
    from tb Inr have "try_block env a w2 = (Inr (), w3)" by simp
    from try_block_success [OF this] obtain w1 body n1 where n1: "events w1 = events w2 @ n1"
      and rs: "run_steps ((if arg_print_info a then print_info_steps (lib env) body else [])
                  @ output_steps env body @ summary_steps env a body) w1 = (Inr (), w3)"
      by blast
    from run_steps_split [OF rs] obtain wa where
      ra: "run_steps (if arg_print_info a then print_info_steps (lib env) body else []) w1 = (Inr (), wa)"
      and rb: "run_steps (output_steps env body @ summary_steps env a body) wa = (Inr (), w3)"
      by blast
    from run_steps_split [OF rb] obtain wb where
      ro: "run_steps (output_steps env body) wa = (Inr (), wb)"
      and rsum: "run_steps (summary_steps env a body) wb = (Inr (), w3)"
      by blast
    have "list_all (\<lambda>s. \<forall>w. \<exists>new. events (snd (s w)) = events w @ new)
            (if arg_print_info a then print_info_steps (lib env) body else [])"
      by (simp add: grows_print_info_steps)
    from run_steps_grows [OF this, of w1] ra obtain na where na: "events wa = events w1 @ na"
      by auto
    from output_steps_appends [OF assms(2,3) ro] obtain nb where nb: "events wb = events wa @ nb"
      and mo: "Append po (''status=success'' @ nl) \<in> set nb" by blast
    from summary_steps_appends [OF assms(4,5) rsum] obtain nc where nc: "events w3 = events wb @ nc"
      and ms: "Append ps (''## '' @ sym_red @ '' Submission Successful!'' @ nl @ nl) \<in> set nc
        \<or> Append ps (''## '' @ sym_blue @ '' Submission Successful!'' @ nl @ nl) \<in> set nc"
      by blast
    have ev: "events w3 = events w @ (n0 @ n1 @ na @ nb @ nc)"
      by (simp add: n0 n1 na nb nc)
    show ?thesis
      unfolding r using mo ms by (auto simp add: new_events_eq [OF ev] ev)
  qed
qed

theorem outputs_appended_when_file_exists_witness:
  "path_exists example_world (arg_file example_args)
   \<and> getenv (example_env (Inl bad_request)) ''GITHUB_OUTPUT'' = Some ''gh_output.txt''
   \<and> ''gh_output.txt'' \<noteq> []
   \<and> getenv (example_env (Inl bad_request)) ''GITHUB_STEP_SUMMARY'' = Some ''gh_summary.md''
   \<and> ''gh_summary.md'' \<noteq> []
   \<and> events (snd (upload_main (example_env (Inl bad_request)) example_args example_world)) =
       events example_world
       @ new_events example_world (snd (upload_main (example_env (Inl bad_request)) example_args example_world))
   \<and> (if fst (upload_main (example_env (Inl bad_request)) example_args example_world) = 0
        then Append ''gh_output.txt'' (''status=success'' @ nl)
               \<in> set (new_events example_world (snd (upload_main (example_env (Inl bad_request)) example_args example_world)))
           \<and> (Append ''gh_summary.md'' (''## '' @ sym_red @ '' Submission Successful!'' @ nl @ nl)
                 \<in> set (new_events example_world (snd (upload_main (example_env (Inl bad_request)) example_args example_world)))
              \<or> Append ''gh_summary.md'' (''## '' @ sym_blue @ '' Submission Successful!'' @ nl @ nl)
                 \<in> set (new_events example_world (snd (upload_main (example_env (Inl bad_request)) example_args example_world))))
        else fst (upload_main (example_env (Inl bad_request)) example_args example_world) = 1
           \<and> Append ''gh_output.txt'' (''status=failure'' @ nl)
                 \<in> set (new_events example_world (snd (upload_main (example_env (Inl bad_request)) example_args example_world)))
           \<and> Append ''gh_summary.md'' (''## '' @ sym_cross @ '' Submission Failed'' @ nl @ nl)
                 \<in> set (new_events example_world (snd (upload_main (example_env (Inl bad_request)) example_args example_world))))"
proof -
  have h2: "getenv (example_env (Inl bad_request)) ''GITHUB_OUTPUT'' = Some ''gh_output.txt''"
    by (simp add: example_env_def)
  have h3: "''gh_output.txt'' \<noteq> []" by simp
  have h4: "getenv (example_env (Inl bad_request)) ''GITHUB_STEP_SUMMARY'' = Some ''gh_summary.md''"
    by (simp add: example_env_def)
  have h5: "''gh_summary.md'' \<noteq> []" by simp
  show ?thesis
    using example_file_exists h2 h3 h4 h5
      outputs_appended_when_file_exists [OF example_file_exists h2 h3 h4 h5]
    by blast
qed

subsection \<open>The validator\<close>

lemma is_prefix_append: "is_prefix xs (xs @ ys)"
  by (induction xs) simp_all

lemma relative_to_join: "relative_to root (join_path root rel) = Some rel"
proof -
  have "is_prefix (root @ ''/'') ((root @ ''/'') @ rel)" by (rule is_prefix_append)
  then show ?thesis by (simp add: relative_to_def join_path_def)
qed

lemma validate_passes_iff:
  "fst (validate_python_syntax env f) \<longleftrightarrow>
     py_compile_compile env f = None \<and> read_and_parse env f = None"
  by (simp add: validate_python_syntax_def handle_raised_def split: option.splits raised.splits)

lemma check_files_joined:
  "\<exists>out'. check_files env root (map (join_path root) rels) out errs =
     (out', Some (errs @ map (\<lambda>rel. (rel, snd (validate_python_syntax env (join_path root rel))))
                          (filter (\<lambda>rel. \<not> fst (validate_python_syntax env (join_path root rel))) rels)))"
proof (induction rels arbitrary: out errs)
  case Nil
  show ?case by simp
next
  case (Cons rel rels)
  obtain ok msg where v: "validate_python_syntax env (join_path root rel) = (ok, msg)"
    by (cases "validate_python_syntax env (join_path root rel)")
  show ?case
  proof (cases ok)
    case True
    with v Cons.IH [of "out @ ''  Checking '' @ rel @ ''...'' @ '' '' @ out_line sym_check" errs]
    show ?thesis by (simp add: relative_to_join Let_def)
  next
    case False
    with v Cons.IH [of "out @ ''  Checking '' @ rel @ ''...'' @ '' '' @ out_line sym_cross"
        "errs @ [(rel, msg)]"]
    show ?thesis by (simp add: relative_to_join Let_def)
  qed
qed

text \<open>
  Claim C5. The validator exits with code 0 exactly when a directory is given, it exists,
  it holds at least one source file, and every file found passes both the compile check
  and the parse; otherwise it exits with code 1. With no source file found it fails at
  once: the text printed names the path and the failure, and holds no result for any
  file.
\<close>

theorem validator_exit_code:
  "(fst (validate_main env argv) = 0 \<longleftrightarrow>
      2 \<le> length argv \<and> dir_exists env (argv ! 1) \<and> rglob_py env (argv ! 1) \<noteq> []
      \<and> (\<forall>rel \<in> set (rglob_py env (argv ! 1)).
            py_compile_compile env (join_path (argv ! 1) rel) = None
            \<and> read_and_parse env (join_path (argv ! 1) rel) = None))
   \<and> (fst (validate_main env argv) = 0 \<or> fst (validate_main env argv) = 1)
   \<and> (2 \<le> length argv \<longrightarrow> dir_exists env (argv ! 1) \<longrightarrow> rglob_py env (argv ! 1) = [] \<longrightarrow>
        validate_main env argv =
          (1, out_line (sym_folder @ '' Path: '' @ argv ! 1)
              @ out_line (sym_cross @ '' Validation failed:'')
              @ out_line (''  - No Python files found in submission'')))"
proof -
  define root where "root = argv ! 1"
  have r1: "argv ! Suc 0 = root" by (simp add: root_def)
  define rels where "rels = rglob_py env root"
  define failures where "failures =
    map (\<lambda>rel. (rel, snd (validate_python_syntax env (join_path root rel))))
        (filter (\<lambda>rel. \<not> fst (validate_python_syntax env (join_path root rel))) rels)"
  have cf: "\<exists>out'. check_files env root (map (join_path root) rels) out [] = (out', Some failures)" for out
    using check_files_joined [of env root rels out "[]"] by (simp add: failures_def)
  have fe: "failures = [] \<longleftrightarrow> (\<forall>rel \<in> set rels.
            py_compile_compile env (join_path root rel) = None
            \<and> read_and_parse env (join_path root rel) = None)"
    by (auto simp add: failures_def filter_empty_conv validate_passes_iff)
  show ?thesis
  proof (cases "2 \<le> length argv \<and> dir_exists env root")
    case False
    then show ?thesis by (auto simp add: validate_main_def r1 Let_def)
  next
    case True
    show ?thesis
    proof (cases "rels = []")
      case e: True
      with True show ?thesis
        by (simp add: validate_main_def r1 rels_def [symmetric] Let_def
            check_required_structure_def python_files_of_def warning_lines_def)
    next
      case ne: False
      define out2 where "out2 =
         (if \<not> has_requirements env root
          then out_line (sym_folder @ '' Path: '' @ root) @ out_line (sym_warning @ ''  Warnings:'')
               @ warning_lines [''No requirements.txt found - make sure all dependencies are documented'']
               @ out_line []
          else out_line (sym_folder @ '' Path: '' @ root))
         @ out_line (sym_memo @ '' Found '' @ show_nat (length (map (join_path root) rels))
                                             @ '' Python file(s)'') @ out_line []"
      obtain out3 where c: "check_files env root (map (join_path root) rels) out2 [] = (out3, Some failures)"
        using cf by blast
      have m: "fst (validate_main env argv) = (if failures \<noteq> [] then 1 else 0)"
        using True ne c
        unfolding validate_main_def root_def [symmetric] Let_def check_required_structure_def
          python_files_of_def rels_def [symmetric] out2_def
        by (simp add: r1 rels_def [symmetric] split: if_splits)
      show ?thesis
        using True ne m fe by (auto simp add: r1 rels_def [symmetric])
    qed
  qed
qed

theorem validator_exit_code_witness:
  "(2 \<le> length [''validate_python.py'', ''sub'']
    \<and> dir_exists repaired_valenv ([''validate_python.py'', ''sub''] ! 1)
    \<and> rglob_py repaired_valenv ([''validate_python.py'', ''sub''] ! 1) = [''pkg/bad.py'', ''good.py'']
    \<and> list_all (\<lambda>rel.
          py_compile_compile repaired_valenv (join_path ([''validate_python.py'', ''sub''] ! 1) rel) = None
          \<and> read_and_parse repaired_valenv (join_path ([''validate_python.py'', ''sub''] ! 1) rel) = None)
        (rglob_py repaired_valenv ([''validate_python.py'', ''sub''] ! 1))
    \<and> fst (validate_main repaired_valenv [''validate_python.py'', ''sub'']) = 0)
   \<and> (2 \<le> length [''validate_python.py'', ''empty'']
      \<and> dir_exists example_valenv ([''validate_python.py'', ''empty''] ! 1)
      \<and> rglob_py example_valenv ([''validate_python.py'', ''empty''] ! 1) = []
      \<and> validate_main example_valenv [''validate_python.py'', ''empty''] =
          (1, out_line (sym_folder @ '' Path: '' @ [''validate_python.py'', ''empty''] ! 1)
              @ out_line (sym_cross @ '' Validation failed:'')
              @ out_line (''  - No Python files found in submission'')))"
proof -
  have a: "2 \<le> length [''validate_python.py'', ''sub'']"
    "dir_exists repaired_valenv ([''validate_python.py'', ''sub''] ! 1)"
    "rglob_py repaired_valenv ([''validate_python.py'', ''sub''] ! 1) = [''pkg/bad.py'', ''good.py'']"
    by (simp_all add: repaired_valenv_def example_valenv_def)
  have p: "\<forall>rel \<in> set (rglob_py repaired_valenv ([''validate_python.py'', ''sub''] ! 1)).
          py_compile_compile repaired_valenv (join_path ([''validate_python.py'', ''sub''] ! 1) rel) = None
          \<and> read_and_parse repaired_valenv (join_path ([''validate_python.py'', ''sub''] ! 1) rel) = None"
    by (simp add: repaired_valenv_def example_valenv_def py_compile_compile_def)
  have ne: "rglob_py repaired_valenv ([''validate_python.py'', ''sub''] ! 1) \<noteq> []"
    using a(3) by simp
  have b: "2 \<le> length [''validate_python.py'', ''empty'']"
    "dir_exists example_valenv ([''validate_python.py'', ''empty''] ! 1)"
    "rglob_py example_valenv ([''validate_python.py'', ''empty''] ! 1) = []"
    by (simp_all add: example_valenv_def)
  have zero: "fst (validate_main repaired_valenv [''validate_python.py'', ''sub'']) = 0"
    using a(1,2) ne p validator_exit_code [of repaired_valenv "[''validate_python.py'', ''sub'']"]
    by blast
  have none: "validate_main example_valenv [''validate_python.py'', ''empty''] =
          (1, out_line (sym_folder @ '' Path: '' @ [''validate_python.py'', ''empty''] ! 1)
              @ out_line (sym_cross @ '' Validation failed:'')
              @ out_line (''  - No Python files found in submission''))"
    using b validator_exit_code [of example_valenv "[''validate_python.py'', ''empty'']"]
    by blast
  from a p zero b none show ?thesis
    unfolding list_all_iff by blast
qed

text \<open>
  Whatever compiling the source raises, a \<^verbatim>\<open>SyntaxError\<close> included, comes back as the
  text of the \<^verbatim>\<open>PyCompileError\<close> after \<^verbatim>\<open>Error:\<close>.
\<close>

lemma compile_failure_message:
  assumes "read_source env f = None" and "source_to_code env f = Some err"
  shows "validate_python_syntax env f = (False, ''Error: '' @ format_compile_error env f err)"
  using assms
  by (simp add: validate_python_syntax_def py_compile_compile_def handle_raised_def)

text \<open>
  Claim C2, at a file with a syntax error in its first line. \<^verbatim>\<open>py_compile.compile\<close>
  raises a \<^verbatim>\<open>PyCompileError\<close> for it, which the handler of \<^verbatim>\<open>SyntaxError\<close> does not take: the
  message returned is \<^verbatim>\<open>Error:\<close> followed by the text of that exception, not
  \<^verbatim>\<open>Syntax error at line 1: invalid syntax\<close>. The file after it is still checked.
\<close>

theorem syntax_error_reported_as_compile_error:
  "source_to_code example_valenv ''sub/pkg/bad.py'' = Some (SyntaxError (Some 1) ''invalid syntax'')
   \<and> validate_python_syntax example_valenv ''sub/pkg/bad.py'' =
       (False, ''Error: '' @ ''  File '' @ dq @ ''sub/pkg/bad.py'' @ dq @ '', line 1'' @ nl
               @ ''    def f(:'' @ nl @ ''          ^'' @ nl @ ''SyntaxError: invalid syntax'' @ nl)
   \<and> validate_python_syntax example_valenv ''sub/pkg/bad.py'' \<noteq>
       (False, ''Syntax error at line 1: invalid syntax'')
   \<and> check_files example_valenv ''sub'' (python_files_of example_valenv ''sub'') [] [] =
       (''  Checking pkg/bad.py... '' @ out_line sym_cross
        @ ''  Checking good.py... '' @ out_line sym_check,
        Some [(''pkg/bad.py'',
               ''Error: '' @ ''  File '' @ dq @ ''sub/pkg/bad.py'' @ dq @ '', line 1'' @ nl
               @ ''    def f(:'' @ nl @ ''          ^'' @ nl @ ''SyntaxError: invalid syntax'' @ nl)])"
proof -
  have one: "show_lineno (Some 1) = ''1''"
    by code_simp
  have bad: "validate_python_syntax example_valenv ''sub/pkg/bad.py'' =
       (False, ''Error: '' @ ''  File '' @ dq @ ''sub/pkg/bad.py'' @ dq @ '', line 1'' @ nl
               @ ''    def f(:'' @ nl @ ''          ^'' @ nl @ ''SyntaxError: invalid syntax'' @ nl)"
    by (simp add: validate_python_syntax_def py_compile_compile_def example_valenv_def
        handle_raised_def one)
  have good: "validate_python_syntax example_valenv ''sub/good.py'' = (True, [])"
    by (simp add: validate_python_syntax_def py_compile_compile_def example_valenv_def)
  have files: "python_files_of example_valenv ''sub'' = [''sub/pkg/bad.py'', ''sub/good.py'']"
    by (simp add: python_files_of_def example_valenv_def join_path_def)
  have rel: "relative_to ''sub'' ''sub/pkg/bad.py'' = Some ''pkg/bad.py''"
    "relative_to ''sub'' ''sub/good.py'' = Some ''good.py''"
    by (simp_all add: relative_to_def)
  have src: "source_to_code example_valenv ''sub/pkg/bad.py'' = Some (SyntaxError (Some 1) ''invalid syntax'')"
    by (simp add: example_valenv_def)
  have ne: "validate_python_syntax example_valenv ''sub/pkg/bad.py'' \<noteq>
       (False, ''Syntax error at line 1: invalid syntax'')"
    unfolding bad by simp
  have loop: "check_files example_valenv ''sub'' (python_files_of example_valenv ''sub'') [] [] =
       (''  Checking pkg/bad.py... '' @ out_line sym_cross
        @ ''  Checking good.py... '' @ out_line sym_check,
        Some [(''pkg/bad.py'',
               ''Error: '' @ ''  File '' @ dq @ ''sub/pkg/bad.py'' @ dq @ '', line 1'' @ nl
               @ ''    def f(:'' @ nl @ ''          ^'' @ nl @ ''SyntaxError: invalid syntax'' @ nl)])"
    unfolding files by (simp add: rel bad good Let_def)
  from src bad ne loop show ?thesis by blast
qed

subsection \<open>The metadata collector\<close>







text \<open>
  With no \<^verbatim>\<open>git\<close> program every field is the empty string, and the record is still
  built.
\<close>

lemma no_git_record:
  "fst (git_info_main l no_git w) =
     Inr [(''commit'', []), (''commit_short'', []), (''message'', []), (''branch'', []),
          (''tag'', []), (''remote_url'', []), (''author'', []), (''author_email'', []),
          (''commit_timestamp'', [])]"
proof -
  have g: "git_cmd no_git a = Inr []" for a
    by (simp add: git_cmd_def no_git_def)
  have "collect_info no_git =
     Inr [(''commit'', []), (''commit_short'', []), (''message'', []), (''branch'', []),
          (''tag'', []), (''remote_url'', []), (''author'', []), (''author_email'', []),
          (''commit_timestamp'', [])]"
    unfolding collect_info_def g by (simp add: first_line_def)
  then show ?thesis by (simp add: git_info_main_def Let_def)
qed

end
